theory Spec2Isabelle
  imports Complex_Main "HOL-Library.Char_ord" "HOL-Library.List_Lexorder"
begin

section \<open>Python values\<close>

text \<open>
  A Python \<open>str\<close> is a \<^typ>\<open>string\<close> whose characters are the code points below 256
  (Basic Latin and Latin-1 Supplement): every character of the bundled country table
  lies there. \<open>None\<close> is \<^term>\<open>None\<close>, an exception is the \<open>Inl\<close> of a sum.
\<close>

datatype py_error =
    RemoteFetchError string
  | NoFallbackDataError string
  | GeoAPIError string
  | ValueError
  | IndexError
  | OverflowError
  | AttributeError
  | TypeError
  | BadZipFile string
  | OtherError string


definition code_point :: "char \<Rightarrow> nat" where
  "code_point c = of_char c"

text \<open>\<open>str.lower()\<close>: A-Z and the capitals U+00C0..U+00DE (without the
  multiplication sign U+00D7) move up by 32; nothing else below 256 changes.\<close>

definition lower_char :: "char \<Rightarrow> char" where
  "lower_char c =
     (let n = code_point c in
      if (65 \<le> n \<and> n \<le> 90) \<or> (192 \<le> n \<and> n \<le> 222 \<and> n \<noteq> 215)
      then char_of (n + 32) else c)"

definition lower :: "string \<Rightarrow> string" where
  "lower s = map lower_char s"

text \<open>\<open>str.upper()\<close>: a-z and U+00E0..U+00FE (without the division sign U+00F7)
  move down by 32 and the sharp s (U+00DF) becomes \<open>SS\<close>. The capitals of U+00B5 and
  U+00FF lie above 255; the two characters stay in place here, and like their capitals
  they are no letter of A-Z.\<close>

definition upper_char :: "char \<Rightarrow> string" where
  "upper_char c =
     (let n = code_point c in
      if (97 \<le> n \<and> n \<le> 122) \<or> (224 \<le> n \<and> n \<le> 254 \<and> n \<noteq> 247)
      then [char_of (n - 32)]
      else if n = 223 then ''SS'' else [c])"

definition upper :: "string \<Rightarrow> string" where
  "upper s = concat (map upper_char s)"

text \<open>\<open>str.isspace()\<close> on one character, and \<open>str.strip()\<close>.\<close>

definition is_space :: "char \<Rightarrow> bool" where
  "is_space c =
     (let n = code_point c in
      (9 \<le> n \<and> n \<le> 13) \<or> (28 \<le> n \<and> n \<le> 32) \<or> n = 133 \<or> n = 160)"

definition strip :: "string \<Rightarrow> string" where
  "strip s = rev (dropWhile is_space (rev (dropWhile is_space s)))"

text \<open>The whitespace that pydantic's \<open>str_strip_whitespace\<close> removes at both ends of a
  string: the characters with the Unicode property \<open>White_Space\<close>, which do not
  include U+001C..U+001F.\<close>

definition is_white_space :: "char \<Rightarrow> bool" where
  "is_white_space c =
     (let n = code_point c in (9 \<le> n \<and> n \<le> 13) \<or> n = 32 \<or> n = 133 \<or> n = 160)"

definition trim :: "string \<Rightarrow> string" where
  "trim s = rev (dropWhile is_white_space (rev (dropWhile is_white_space s)))"

text \<open>\<open>q in s\<close> for two strings.\<close>

fun str_contains :: "string \<Rightarrow> string \<Rightarrow> bool" where
  "str_contains q [] = (q = [])"
| "str_contains q (c # cs) = (take (length q) (c # cs) = q \<or> str_contains q cs)"

definition is_digit :: "char \<Rightarrow> bool" where
  "is_digit c = (let n = code_point c in 48 \<le> n \<and> n \<le> 57)"

definition is_upper_AZ :: "char \<Rightarrow> bool" where
  "is_upper_AZ c = (let n = code_point c in 65 \<le> n \<and> n \<le> 90)"

definition is_ascii_letter :: "char \<Rightarrow> bool" where
  "is_ascii_letter c =
     (let n = code_point c in (65 \<le> n \<and> n \<le> 90) \<or> (97 \<le> n \<and> n \<le> 122))"

text \<open>Truth value of an optional string: \<open>None\<close> and the empty string are false.\<close>

definition truthy :: "string option \<Rightarrow> bool" where
  "truthy v = (case v of None \<Rightarrow> False | Some s \<Rightarrow> s \<noteq> [])"

section \<open>geo/models/postal\_codes.py\<close>

record PostalLocalityV1 =
  locality_name :: string
  postal_code :: string
  additional_digit :: string
  municipality_name :: string
  bfs_number :: int
  canton_code :: string
  easting :: real
  northing :: real
  language :: string
  validity_date :: string

text \<open>The field patterns: \<open>^\d{4}$\<close>, \<open>^\d{2}$\<close>, \<open>^([A-Z]{2}|)$\<close>,
  \<open>^(de|fr|it|rm|multiple)$\<close> and \<open>^\d{4}-\d{2}-\d{2}$\<close>.\<close>

definition digits_n :: "nat \<Rightarrow> string \<Rightarrow> bool" where
  "digits_n n s = (length s = n \<and> list_all is_digit s)"

definition canton_pattern :: "string \<Rightarrow> bool" where
  "canton_pattern s = ((length s = 2 \<and> list_all is_upper_AZ s) \<or> s = [])"

definition language_pattern :: "string \<Rightarrow> bool" where
  "language_pattern s = (s \<in> set [''de'', ''fr'', ''it'', ''rm'', ''multiple''])"

definition validity_date_pattern :: "string \<Rightarrow> bool" where
  "validity_date_pattern s =
     (length s = 10 \<and> digits_n 4 (take 4 s) \<and> s ! 4 = CHR ''-'' \<and>
      digits_n 2 (take 2 (drop 5 s)) \<and> s ! 7 = CHR ''-'' \<and> digits_n 2 (drop 8 s))"

text \<open>The \<open>before\<close> validator of \<open>canton_code\<close>.\<close>

definition uppercase_canton_code :: "string \<Rightarrow> string" where
  "uppercase_canton_code v = (if v \<noteq> [] \<and> strip v \<noteq> [] then strip (upper v) else [])"

text \<open>Validation of one field: the list of the field's errors, empty when it passes.
  String fields are trimmed first (\<open>str_strip_whitespace\<close>), the canton code after its
  \<open>before\<close> validator has run.\<close>

definition check :: "string \<Rightarrow> bool \<Rightarrow> string list" where
  "check field ok = (if ok then [] else [field])"

text \<open>Construction: every keyword argument is validated, all failing fields are
  reported together, and the record holds the trimmed (for the canton code:
  uppercased) values. \<open>additional_digit\<close> may be left out and is then \<open>00\<close>.\<close>

definition PostalLocalityV1_init ::
  "string \<Rightarrow> string \<Rightarrow> string option \<Rightarrow> string \<Rightarrow> int \<Rightarrow> string \<Rightarrow> real \<Rightarrow> real \<Rightarrow>
   string \<Rightarrow> string \<Rightarrow> string list + PostalLocalityV1" where
  "PostalLocalityV1_init a_locality_name a_postal_code a_additional_digit
      a_municipality_name a_bfs_number a_canton_code a_easting a_northing a_language
      a_validity_date =
     (let lnm = trim a_locality_name;
          pc = trim a_postal_code;
          ad = (case a_additional_digit of None \<Rightarrow> ''00'' | Some d \<Rightarrow> trim d);
          mn = trim a_municipality_name;
          cc = trim (uppercase_canton_code a_canton_code);
          lg = trim a_language;
          vd = trim a_validity_date;
          errors =
            check ''locality_name'' (1 \<le> length lnm \<and> length lnm \<le> 100) @
            check ''postal_code'' (digits_n 4 pc) @
            check ''additional_digit'' (a_additional_digit = None \<or> digits_n 2 ad) @
            check ''municipality_name'' (1 \<le> length mn \<and> length mn \<le> 100) @
            check ''bfs_number'' (1 \<le> a_bfs_number \<and> a_bfs_number \<le> 9999) @
            check ''canton_code'' (canton_pattern cc) @
            check ''easting'' (2485000 \<le> a_easting \<and> a_easting \<le> 2834000) @
            check ''northing'' (1075000 \<le> a_northing \<and> a_northing \<le> 1296000) @
            check ''language'' (language_pattern lg) @
            check ''validity_date'' (validity_date_pattern vd)
      in if errors \<noteq> [] then Inl errors
         else Inr \<lparr> locality_name = lnm, postal_code = pc, additional_digit = ad,
                    municipality_name = mn, bfs_number = a_bfs_number, canton_code = cc,
                    easting = a_easting, northing = a_northing, language = lg,
                    validity_date = vd \<rparr>)"

definition full_postal_code :: "PostalLocalityV1 \<Rightarrow> string" where
  "full_postal_code r =
     (if additional_digit r \<noteq> [] \<and> additional_digit r \<noteq> ''00''
      then postal_code r @ ''-'' @ additional_digit r
      else postal_code r)"

section \<open>geo/base.py\<close>














section \<open>geo/models/municipalities.py\<close>

datatype date = Date (year: int) (month: int) (day: int)

record MunicipalityV1 =
  historical_code :: string
  bfs_code :: "string option"
  name :: string
  short_name :: "string option"
  canton_code :: "string option"
  canton_name :: "string option"
  level :: "int option"
  parent :: "string option"
  valid_from :: "date option"
  valid_to :: "date option"
  rec_type :: "string option"

text \<open>\<open>str.split(sep)\<close> for a separator of one character.\<close>

fun split_on :: "char \<Rightarrow> string \<Rightarrow> string list" where
  "split_on sep [] = [[]]"
| "split_on sep (c # cs) =
     (if c = sep then [] # split_on sep cs
      else (case split_on sep cs of p # ps \<Rightarrow> (c # p) # ps | [] \<Rightarrow> [[c]]))"

text \<open>\<open>int(s)\<close> for a string: surrounding whitespace is dropped, a sign may lead, and the
  rest is decimal digits, single underscores allowed between two digits. Anything else,
  and (from CPython 3.11) more than 4300 digits, is a \<open>ValueError\<close>, here \<open>None\<close>.\<close>

definition digit_value :: "char \<Rightarrow> int" where
  "digit_value c = int (code_point c) - 48"

definition digits_value :: "string \<Rightarrow> int" where
  "digits_value ds = foldl (\<lambda>acc c. 10 * acc + digit_value c) 0 ds"

fun int_body :: "string \<Rightarrow> bool" where
  "int_body [] = False"
| "int_body [c] = is_digit c"
| "int_body (c # u # cs) =
     (is_digit c \<and> (if u = CHR ''_'' then int_body cs else int_body (u # cs)))"

definition py_int :: "string \<Rightarrow> int option" where
  "py_int s =
     (let t = strip s;
          negative = (t \<noteq> [] \<and> hd t = CHR ''-'');
          body = (if t \<noteq> [] \<and> (hd t = CHR ''-'' \<or> hd t = CHR ''+'') then tl t else t);
          ds = filter is_digit body
      in if int_body body \<and> length ds \<le> 4300
         then Some (if negative then - digits_value ds else digits_value ds)
         else None)"

text \<open>The constructor \<open>date(year, month, day)\<close> of CPython: an argument that does not
  fit a C \<open>int\<close> raises \<open>OverflowError\<close>; a year outside 1..9999, a month outside 1..12
  or a day that the month does not have raises \<open>ValueError\<close>.\<close>

definition fits_c_int :: "int \<Rightarrow> bool" where
  "fits_c_int x = (- 2147483648 \<le> x \<and> x \<le> 2147483647)"

definition is_leap :: "int \<Rightarrow> bool" where
  "is_leap y = (if y mod 100 = 0 then y mod 400 = 0 else y mod 4 = 0)"

definition days_in_month :: "int \<Rightarrow> int \<Rightarrow> int" where
  "days_in_month y m =
     (if m = 2 then (if is_leap y then 29 else 28)
      else if m = 4 \<or> m = 6 \<or> m = 9 \<or> m = 11 then 30 else 31)"

definition date_new :: "int \<Rightarrow> int \<Rightarrow> int \<Rightarrow> py_error + date" where
  "date_new y m d =
     (if fits_c_int y \<and> fits_c_int m \<and> fits_c_int d then
        (if 1 \<le> y \<and> y \<le> 9999 \<and> 1 \<le> m \<and> m \<le> 12 \<and> 1 \<le> d \<and> d \<le> days_in_month y m
         then Inr (Date y m d) else Inl ValueError)
      else Inl OverflowError)"

text \<open>\<open>date(int(parts[i]), int(parts[j]), int(parts[k]))\<close>, the arguments evaluated from
  left to right: a missing part is an \<open>IndexError\<close>, a part that is no number a
  \<open>ValueError\<close>.\<close>

definition int_part :: "string list \<Rightarrow> nat \<Rightarrow> py_error + int" where
  "int_part parts i =
     (if i < length parts
      then (case py_int (parts ! i) of None \<Rightarrow> Inl ValueError | Some x \<Rightarrow> Inr x)
      else Inl IndexError)"

definition date_of_parts :: "string list \<Rightarrow> nat \<Rightarrow> nat \<Rightarrow> nat \<Rightarrow> py_error + date" where
  "date_of_parts parts i j k =
     (case int_part parts i of
        Inl e \<Rightarrow> Inl e
      | Inr y \<Rightarrow>
          (case int_part parts j of
             Inl e \<Rightarrow> Inl e
           | Inr m \<Rightarrow>
               (case int_part parts k of
                  Inl e \<Rightarrow> Inl e
                | Inr d \<Rightarrow> date_new y m d)))"

text \<open>What \<open>except (ValueError, IndexError)\<close> catches.\<close>

fun caught :: "py_error \<Rightarrow> bool" where
  "caught ValueError = True"
| "caught IndexError = True"
| "caught e = False"

text \<open>The value handed to the validator of \<open>valid_from\<close> and \<open>valid_to\<close>: \<open>None\<close>, a
  string, a date, or anything else.\<close>

datatype date_input = NoneInput | StrInput string | DateInput date | OtherInput

text \<open>\<open>MunicipalityV1.parse_date\<close>. The result is the returned value, or the exception
  that leaves the validator.\<close>

definition parse_date_dots :: "string \<Rightarrow> py_error + date option" where
  "parse_date_dots v =
     (if CHR ''.'' \<in> set v then
        (case date_of_parts (split_on CHR ''.'' v) 2 1 0 of
           Inr d \<Rightarrow> Inr (Some d)
         | Inl e \<Rightarrow> if caught e then Inr None else Inl e)
      else Inr None)"

definition parse_date :: "date_input \<Rightarrow> py_error + date option" where
  "parse_date v =
     (case v of
        NoneInput \<Rightarrow> Inr None
      | DateInput d \<Rightarrow> Inr (Some d)
      | OtherInput \<Rightarrow> Inr None
      | StrInput s \<Rightarrow>
          (let v = strip s in
           if v = [] then Inr None
           else if CHR ''-'' \<in> set v \<and> length (split_on CHR ''-'' v) = 3 then
             (let parts = split_on CHR ''-'' v in
              case (if length (parts ! 0) \<le> 2 then date_of_parts parts 2 1 0
                    else date_of_parts parts 0 1 2) of
                Inr d \<Rightarrow> Inr (Some d)
              | Inl e \<Rightarrow> if caught e then parse_date_dots v else Inl e)
           else parse_date_dots v))"

text \<open>\<open>handle_empty_string\<close>, the \<open>before\<close> validator of the optional string fields.\<close>

definition handle_empty_string :: "string option \<Rightarrow> string option" where
  "handle_empty_string v =
     (case v of
        None \<Rightarrow> None
      | Some s \<Rightarrow> if s = [] then None else if strip s \<noteq> [] then Some (strip s) else None)"

definition optional_max_length :: "nat \<Rightarrow> string option \<Rightarrow> bool" where
  "optional_max_length n v = (case v of None \<Rightarrow> True | Some s \<Rightarrow> length s \<le> n)"

text \<open>Construction of a \<open>MunicipalityV1\<close> from its keyword arguments. The fields are
  validated in the order of their declaration; an exception that a validator lets out
  ends the construction at once and is what the caller sees; otherwise all failing
  fields are reported together.\<close>

definition MunicipalityV1_init ::
  "string \<Rightarrow> string option \<Rightarrow> string \<Rightarrow> string option \<Rightarrow> string option \<Rightarrow> string option \<Rightarrow>
   date_input \<Rightarrow> date_input \<Rightarrow> int option \<Rightarrow> string option \<Rightarrow> string option \<Rightarrow>
   py_error + (string list + MunicipalityV1)" where
  "MunicipalityV1_init a_historical_code a_bfs_code a_name a_short_name a_canton_code
      a_canton_name a_valid_from a_valid_to a_level a_parent a_rec_type =
     (let hc = trim a_historical_code;
          bc = map_option trim (handle_empty_string a_bfs_code);
          nm = trim a_name;
          sn = map_option trim (handle_empty_string a_short_name);
          cc = map_option trim (handle_empty_string a_canton_code);
          cn = map_option trim (handle_empty_string a_canton_name);
          pa = map_option trim (handle_empty_string a_parent);
          rt = map_option trim (handle_empty_string a_rec_type)
      in case parse_date a_valid_from of
           Inl e \<Rightarrow> Inl e
         | Inr vf \<Rightarrow>
             (case parse_date a_valid_to of
                Inl e \<Rightarrow> Inl e
              | Inr vt \<Rightarrow>
                  (let errors =
                     check ''historical_code'' (1 \<le> length hc \<and> length hc \<le> 12) @
                     check ''bfs_code'' (optional_max_length 12 bc) @
                     check ''name'' (1 \<le> length nm \<and> length nm \<le> 120) @
                     check ''short_name'' (optional_max_length 120 sn) @
                     check ''canton_code''
                       (case cc of None \<Rightarrow> True | Some c \<Rightarrow> canton_pattern c) @
                     check ''canton_name'' (optional_max_length 120 cn) @
                     check ''level''
                       (case a_level of None \<Rightarrow> True | Some l \<Rightarrow> 1 \<le> l \<and> l \<le> 9) @
                     check ''parent'' (optional_max_length 12 pa) @
                     check ''rec_type'' (optional_max_length 50 rt)
                   in if errors \<noteq> [] then Inr (Inl errors)
                      else Inr (Inr \<lparr> historical_code = hc, bfs_code = bc, name = nm,
                                  short_name = sn, canton_code = cc, canton_name = cn,
                                  level = a_level, parent = pa, valid_from = vf,
                                  valid_to = vt, rec_type = rt \<rparr>))))"

section \<open>geo/municipalities.py\<close>

text \<open>The dict comprehension \<open>{m.historical_code: m for m in municipalities}\<close>: of two
  records with one historical code the later one stays.\<close>

definition by_historical_code :: "MunicipalityV1 list \<Rightarrow> (string \<rightharpoonup> MunicipalityV1)" where
  "by_historical_code municipalities =
     fold (\<lambda>m d. d(historical_code m \<mapsto> m)) municipalities Map.empty"

definition max_depth :: nat where
  "max_depth = 5"

text \<open>The \<open>while\<close> loop of \<open>_enrich_with_cantons\<close>, from the state \<open>(current, depth)\<close>;
  the result is \<open>(canton_code, canton_name)\<close> as the loop leaves them. A model instance
  is always true, so \<open>not parent\<close> holds for \<open>None\<close> only.\<close>

function walk_up ::
  "(string \<rightharpoonup> MunicipalityV1) \<Rightarrow> MunicipalityV1 \<Rightarrow> nat \<Rightarrow> string option \<times> string option" where
  "walk_up d current depth =
     (if truthy (parent current) \<and> depth < max_depth then
        (case d (the (parent current)) of
           None \<Rightarrow> (None, None)
         | Some p \<Rightarrow>
             if level p = Some 1 then (short_name p, Some (name p))
             else walk_up d p (depth + 1))
      else (None, None))"
  by pat_completeness auto
termination
  by (relation "measure (\<lambda>(d, current, depth). max_depth - depth)") auto

declare walk_up.simps [simp del]

text \<open>\<open>_enrich_with_cantons\<close>. The table \<open>canton_by_historical_code\<close> that the source
  builds first is never read afterwards and has no part in the result.\<close>

definition enrich_one :: "(string \<rightharpoonup> MunicipalityV1) \<Rightarrow> MunicipalityV1 \<Rightarrow> MunicipalityV1" where
  "enrich_one d m =
     (let (c_code, c_name) =
        (if level m = Some 1 then (short_name m, Some (name m))
         else if truthy (parent m) then walk_up d m 0
         else (None, None))
      in m\<lparr>canton_code := c_code, canton_name := c_name\<rparr>)"

definition enrich_with_cantons :: "MunicipalityV1 list \<Rightarrow> MunicipalityV1 list" where
  "enrich_with_cantons municipalities =
     map (enrich_one (by_historical_code municipalities)) municipalities"

text \<open>The lookup of the specification, stated on the snapshot itself: a historical
  code resolves to the record of the snapshot that carries it, to the last such record
  when the code occurs more than once (historical codes are the primary key of a
  snapshot), and to nothing when no record carries it.\<close>

definition resolve :: "MunicipalityV1 list \<Rightarrow> string \<Rightarrow> MunicipalityV1 option" where
  "resolve snapshot h = List.find (\<lambda>m. historical_code m = h) (rev snapshot)"

text \<open>The parent chain in the words of the specification: the parent of a record is the
  record that its \<open>parent\<close> reference resolves to in the snapshot, and the \<open>k\<close>-th
  ancestor is reached by \<open>k\<close> such hops.\<close>

definition parent_of :: "(string \<rightharpoonup> MunicipalityV1) \<Rightarrow> MunicipalityV1 \<Rightarrow> MunicipalityV1 option" where
  "parent_of d m = (case parent m of None \<Rightarrow> None | Some h \<Rightarrow> if h = [] then None else d h)"

fun ancestor :: "(string \<rightharpoonup> MunicipalityV1) \<Rightarrow> MunicipalityV1 \<Rightarrow> nat \<Rightarrow> MunicipalityV1 option" where
  "ancestor d m 0 = Some m"
| "ancestor d m (Suc k) = (case parent_of d m of None \<Rightarrow> None | Some p \<Rightarrow> ancestor d p k)"

text \<open>\<open>c\<close> is the canton of \<open>m\<close> at \<open>k\<close> hops: the \<open>k\<close>-th ancestor is \<open>c\<close>, it has level 1,
  and no ancestor before it has. No canton within \<open>n\<close> hops: none of the ancestors
  at 1 to \<open>n\<close> hops that exist has level 1.\<close>

definition not_level_1 :: "MunicipalityV1 option \<Rightarrow> bool" where
  "not_level_1 a = (case a of None \<Rightarrow> True | Some p \<Rightarrow> level p \<noteq> Some 1)"

definition canton_at :: "(string \<rightharpoonup> MunicipalityV1) \<Rightarrow> MunicipalityV1 \<Rightarrow> nat \<Rightarrow> MunicipalityV1 \<Rightarrow> bool" where
  "canton_at d m k c =
     (ancestor d m k = Some c \<and> level c = Some 1 \<and>
      list_all (\<lambda>j. not_level_1 (ancestor d m j)) [1..<k])"

definition no_canton_within :: "(string \<rightharpoonup> MunicipalityV1) \<Rightarrow> MunicipalityV1 \<Rightarrow> nat \<Rightarrow> bool" where
  "no_canton_within d m n = list_all (\<lambda>j. not_level_1 (ancestor d m j)) [1..<Suc n]"

section \<open>Example snapshots\<close>

text \<open>The two-hop example of the specification: a municipality in a district in the
  canton of Z\"urich.\<close>

definition zh_canton :: MunicipalityV1 where
  "zh_canton =
     \<lparr> historical_code = ''1'', bfs_code = Some ''1'', name = ''Z'' @ [CHR 0xFC] @ ''rich'',
       short_name = Some ''ZH'', canton_code = None, canton_name = None, level = Some 1,
       parent = None, valid_from = None, valid_to = None, rec_type = None \<rparr>"

definition zh_district :: MunicipalityV1 where
  "zh_district =
     \<lparr> historical_code = ''101'', bfs_code = Some ''112'', name = ''Bezirk Z'' @ [CHR 0xFC] @ ''rich'',
       short_name = None, canton_code = None, canton_name = None, level = Some 2,
       parent = Some ''1'', valid_from = None, valid_to = None, rec_type = None \<rparr>"

definition zh_municipality :: MunicipalityV1 where
  "zh_municipality =
     \<lparr> historical_code = ''261'', bfs_code = Some ''261'', name = ''Z'' @ [CHR 0xFC] @ ''rich'',
       short_name = None, canton_code = None, canton_name = None, level = Some 3,
       parent = Some ''101'', valid_from = None, valid_to = None, rec_type = None \<rparr>"

definition snapshot_2hop :: "MunicipalityV1 list" where
  "snapshot_2hop = [zh_canton, zh_district, zh_municipality]"

text \<open>A unit with a code, a parent reference and a level, and nothing else.\<close>

definition unit :: "string \<Rightarrow> string option \<Rightarrow> int \<Rightarrow> MunicipalityV1" where
  "unit h p l =
     \<lparr> historical_code = h, bfs_code = None, name = ''unit '' @ h, short_name = None,
       canton_code = None, canton_name = None, level = Some l, parent = p,
       valid_from = None, valid_to = None, rec_type = None \<rparr>"

text \<open>A chain of six units under the canton: the first is six hops below it, the
  second five. The district and the municipality of the first example follow.\<close>

definition snapshot_deep :: "MunicipalityV1 list" where
  "snapshot_deep =
     [unit ''a'' (Some ''b'') 3, unit ''b'' (Some ''c'') 2, unit ''c'' (Some ''d'') 2,
      unit ''d'' (Some ''e'') 2, unit ''e'' (Some ''f'') 2, unit ''f'' (Some ''1'') 2,
      zh_canton, zh_district, zh_municipality]"

text \<open>A unit whose parent is not in the snapshot.\<close>

definition snapshot_orphan :: "MunicipalityV1 list" where
  "snapshot_orphan = [zh_canton, unit ''x'' (Some ''999'') 3]"

text \<open>A level-1 unit without \<open>short_name\<close>, and a unit below it.\<close>

definition snapshot_unnamed :: "MunicipalityV1 list" where
  "snapshot_unnamed = [unit ''9'' None 1, unit ''91'' (Some ''9'') 3]"

section \<open>generated/bfs/country\_codes.py\<close>

text \<open>One value of the \<open>COUNTRY_CODES\<close> dict: its \<open>bfs_code\<close>, its \<open>iso3\<close> and the four
  entries of its \<open>names\<close> dict. The dict literal is kept as the list of its items, in
  the order of the source; \<open>COUNTRY_CODES.get(k)\<close> is \<^term>\<open>map_of\<close> on it.\<close>

record country_data =
  data_bfs_code :: string
  data_iso3 :: string
  names_de :: string
  names_fr :: string
  names_it :: string
  names_en :: string

definition COUNTRY_CODES :: "(string \<times> country_data) list" where
  "COUNTRY_CODES =
    [(''AD'', \<lparr> data_bfs_code = ''8202'', data_iso3 = ''AND'',
       names_de = ''Andorra'', names_fr = ''Andorre'',
       names_it = ''Andorra'', names_en = ''Andorra'' \<rparr>),
     (''AE'', \<lparr> data_bfs_code = ''8532'', data_iso3 = ''ARE'',
       names_de = ''Vereinigte Arabische Emirate'', names_fr = ''Emirats arabes unis'',
       names_it = ''Emirati arabi uniti'', names_en = ''United Arab Emirates'' \<rparr>),
     (''AF'', \<lparr> data_bfs_code = ''8501'', data_iso3 = ''AFG'',
       names_de = ''Afghanistan'', names_fr = ''Afghanistan'',
       names_it = ''Afghanistan'', names_en = ''Afghanistan'' \<rparr>),
     (''AG'', \<lparr> data_bfs_code = ''8442'', data_iso3 = ''ATG'',
       names_de = ''Antigua und Barbuda'', names_fr = ''Antigua-et-Barbuda'',
       names_it = ''Antigua e Barbuda'', names_en = ''Antigua and Barbuda'' \<rparr>),
     (''AI'', \<lparr> data_bfs_code = ''8446'', data_iso3 = ''AIA'',
       names_de = ''Anguilla'', names_fr = ''Anguilla'',
       names_it = ''Anguilla'', names_en = ''Anguilla'' \<rparr>),
     (''AL'', \<lparr> data_bfs_code = ''8201'', data_iso3 = ''ALB'',
       names_de = ''Albanien'', names_fr = ''Albanie'',
       names_it = ''Albania'', names_en = ''Albania'' \<rparr>),
     (''AM'', \<lparr> data_bfs_code = ''8560'', data_iso3 = ''ARM'',
       names_de = ''Armenien'', names_fr = (''Arm'' @ [CHR 0xE9] @ ''nie''),
       names_it = ''Armenia'', names_en = ''Armenia'' \<rparr>),
     (''AO'', \<lparr> data_bfs_code = ''8305'', data_iso3 = ''AGO'',
       names_de = ''Angola'', names_fr = ''Angola'',
       names_it = ''Angola'', names_en = ''Angola'' \<rparr>),
     (''AQ'', \<lparr> data_bfs_code = ''8701'', data_iso3 = ''ATA'',
       names_de = ''Antarktis'', names_fr = ''Antarctique'',
       names_it = ''Antartide'', names_en = ''Antarctica'' \<rparr>),
     (''AR'', \<lparr> data_bfs_code = ''8401'', data_iso3 = ''ARG'',
       names_de = ''Argentinien'', names_fr = ''Argentine'',
       names_it = ''Argentina'', names_en = ''Argentina'' \<rparr>),
     (''AS'', \<lparr> data_bfs_code = ''8621'', data_iso3 = ''ASM'',
       names_de = ''Amerikanisch-Samoa'', names_fr = (''Samoa am'' @ [CHR 0xE9] @ ''ricaines''),
       names_it = ''Samoa americane'', names_en = ''American Samoa'' \<rparr>),
     (''AT'', \<lparr> data_bfs_code = ''8229'', data_iso3 = ''AUT'',
       names_de = ([CHR 0xD6] @ ''sterreich''), names_fr = ''Autriche'',
       names_it = ''Austria'', names_en = ''Austria'' \<rparr>),
     (''AU'', \<lparr> data_bfs_code = ''8601'', data_iso3 = ''AUS'',
       names_de = ''Australien'', names_fr = ''Australie'',
       names_it = ''Australia'', names_en = ''Australia'' \<rparr>),
     (''AW'', \<lparr> data_bfs_code = ''8482'', data_iso3 = ''ABW'',
       names_de = ''Aruba'', names_fr = ''Aruba'',
       names_it = ''Aruba'', names_en = ''Aruba'' \<rparr>),
     (''AX'', \<lparr> data_bfs_code = ''8274'', data_iso3 = ''ALA'',
       names_de = ''Alandinseln'', names_fr = ([CHR 0xCE] @ ''les d'' @ [CHR 0x27] @ ''Aland''),
       names_it = ''Isole di Aland'', names_en = ''Aland Islands'' \<rparr>),
     (''AZ'', \<lparr> data_bfs_code = ''8561'', data_iso3 = ''AZE'',
       names_de = ''Aserbaidschan'', names_fr = (''Azerba'' @ [CHR 0xEF] @ ''djan''),
       names_it = ''Azerbaigian'', names_en = ''Azerbaijan'' \<rparr>),
     (''BA'', \<lparr> data_bfs_code = ''8252'', data_iso3 = ''BIH'',
       names_de = ''Bosnien und Herzegowina'', names_fr = (''Bosnie et Herz'' @ [CHR 0xE9] @ ''govine''),
       names_it = ''Bosnia e Erzegovina'', names_en = ''Bosnia and Herzegovina'' \<rparr>),
     (''BB'', \<lparr> data_bfs_code = ''8403'', data_iso3 = ''BRB'',
       names_de = ''Barbados'', names_fr = ''Barbade'',
       names_it = ''Barbados'', names_en = ''Barbados'' \<rparr>),
     (''BD'', \<lparr> data_bfs_code = ''8546'', data_iso3 = ''BGD'',
       names_de = ''Bangladesch'', names_fr = ''Bangladesh'',
       names_it = ''Bangladesh'', names_en = ''Bangladesh'' \<rparr>),
     (''BE'', \<lparr> data_bfs_code = ''8204'', data_iso3 = ''BEL'',
       names_de = ''Belgien'', names_fr = ''Belgique'',
       names_it = ''Belgio'', names_en = ''Belgium'' \<rparr>),
     (''BF'', \<lparr> data_bfs_code = ''8337'', data_iso3 = ''BFA'',
       names_de = ''Burkina Faso'', names_fr = ''Burkina Faso'',
       names_it = ''Burkina Faso'', names_en = ''Burkina Faso'' \<rparr>),
     (''BG'', \<lparr> data_bfs_code = ''8205'', data_iso3 = ''BGR'',
       names_de = ''Bulgarien'', names_fr = ''Bulgarie'',
       names_it = ''Bulgaria'', names_en = ''Bulgaria'' \<rparr>),
     (''BH'', \<lparr> data_bfs_code = ''8502'', data_iso3 = ''BHR'',
       names_de = ''Bahrain'', names_fr = (''Bahre'' @ [CHR 0xEF] @ ''n''),
       names_it = ''Bahrein'', names_en = ''Bahrain'' \<rparr>),
     (''BI'', \<lparr> data_bfs_code = ''8308'', data_iso3 = ''BDI'',
       names_de = ''Burundi'', names_fr = ''Burundi'',
       names_it = ''Burundi'', names_en = ''Burundi'' \<rparr>),
     (''BJ'', \<lparr> data_bfs_code = ''8309'', data_iso3 = ''BEN'',
       names_de = ''Benin'', names_fr = (''B'' @ [CHR 0xE9] @ ''nin''),
       names_it = ''Benin'', names_en = ''Benin'' \<rparr>),
     (''BL'', \<lparr> data_bfs_code = ''8449'', data_iso3 = ''BLM'',
       names_de = (''Saint-Barth'' @ [CHR 0xE9] @ ''lemy''), names_fr = (''Saint-Barth'' @ [CHR 0xE9] @ ''lemy''),
       names_it = (''Saint-Barth'' @ [CHR 0xE9] @ ''lemy''), names_en = (''Saint Barth'' @ [CHR 0xE9] @ ''lemy'') \<rparr>),
     (''BM'', \<lparr> data_bfs_code = ''8404'', data_iso3 = ''BMU'',
       names_de = ''Bermuda'', names_fr = ''Bermudes'',
       names_it = ''Bermuda'', names_en = ''Bermuda'' \<rparr>),
     (''BN'', \<lparr> data_bfs_code = ''8504'', data_iso3 = ''BRN'',
       names_de = ''Brunei Darussalam'', names_fr = (''Brun'' @ [CHR 0xE9] @ ''i Darussalam''),
       names_it = ''Brunei Darussalam'', names_en = ''Brunei'' \<rparr>),
     (''BO'', \<lparr> data_bfs_code = ''8405'', data_iso3 = ''BOL'',
       names_de = ''Bolivien'', names_fr = ''Bolivie'',
       names_it = ''Bolivia'', names_en = ''Bolivia'' \<rparr>),
     (''BQ'', \<lparr> data_bfs_code = ''8486'', data_iso3 = ''BES'',
       names_de = ''Bonaire, Saint Eustatius und Saba'', names_fr = ''Bonaire, Saint Eustatius et Saba'',
       names_it = ''Bonaire, Saint Eustatius e Saba'', names_en = ''Bonaire, Saint Eustatius and Saba'' \<rparr>),
     (''BR'', \<lparr> data_bfs_code = ''8406'', data_iso3 = ''BRA'',
       names_de = ''Brasilien'', names_fr = (''Br'' @ [CHR 0xE9] @ ''sil''),
       names_it = ''Brasile'', names_en = ''Brazil'' \<rparr>),
     (''BS'', \<lparr> data_bfs_code = ''8402'', data_iso3 = ''BHS'',
       names_de = ''Bahamas'', names_fr = ''Bahamas'',
       names_it = ''Bahamas'', names_en = ''Bahamas'' \<rparr>),
     (''BT'', \<lparr> data_bfs_code = ''8503'', data_iso3 = ''BTN'',
       names_de = ''Bhutan'', names_fr = ''Bhoutan'',
       names_it = ''Bhutan'', names_en = ''Bhutan'' \<rparr>),
     (''BV'', \<lparr> data_bfs_code = ''8702'', data_iso3 = ''BVT'',
       names_de = ''Bouvetinsel'', names_fr = ([CHR 0xCE] @ ''le Bouvet''),
       names_it = ''Isola Bouvet'', names_en = ''Bouvet Island'' \<rparr>),
     (''BW'', \<lparr> data_bfs_code = ''8307'', data_iso3 = ''BWA'',
       names_de = ''Botsuana'', names_fr = ''Botswana'',
       names_it = ''Botswana'', names_en = ''Botswana'' \<rparr>),
     (''BY'', \<lparr> data_bfs_code = ''8266'', data_iso3 = ''BLR'',
       names_de = ''Belarus'', names_fr = (''B'' @ [CHR 0xE9] @ ''larus''),
       names_it = ''Belarus'', names_en = ''Belarus'' \<rparr>),
     (''BZ'', \<lparr> data_bfs_code = ''8419'', data_iso3 = ''BLZ'',
       names_de = ''Belize'', names_fr = ''Belize'',
       names_it = ''Belize'', names_en = ''Belize'' \<rparr>),
     (''CA'', \<lparr> data_bfs_code = ''8423'', data_iso3 = ''CAN'',
       names_de = ''Kanada'', names_fr = ''Canada'',
       names_it = ''Canada'', names_en = ''Canada'' \<rparr>),
     (''CC'', \<lparr> data_bfs_code = ''8652'', data_iso3 = ''CCK'',
       names_de = ''Kokosinseln'', names_fr = ([CHR 0xCE] @ ''les Cocos (Keeling)''),
       names_it = ''Isole Cocos'', names_en = ''Cocos (Keeling) Islands'' \<rparr>),
     (''CD'', \<lparr> data_bfs_code = ''8323'', data_iso3 = ''COD'',
       names_de = ''Kongo (Kinshasa)'', names_fr = ''Congo (Kinshasa)'',
       names_it = ''Congo (Kinshasa)'', names_en = ''Congo (Kinshasa)'' \<rparr>),
     (''CF'', \<lparr> data_bfs_code = ''8360'', data_iso3 = ''CAF'',
       names_de = ''Zentralafrikanische Republik'', names_fr = (''R'' @ [CHR 0xE9] @ ''publique centrafricaine''),
       names_it = ''Repubblica centrafricana'', names_en = ''Central African Republic'' \<rparr>),
     (''CG'', \<lparr> data_bfs_code = ''8322'', data_iso3 = ''COG'',
       names_de = ''Kongo (Brazzaville)'', names_fr = ''Congo (Brazzaville)'',
       names_it = ''Congo (Brazzaville)'', names_en = ''Congo (Brazzaville)'' \<rparr>),
     (''CH'', \<lparr> data_bfs_code = ''8100'', data_iso3 = ''CHE'',
       names_de = ''Schweiz'', names_fr = ''Suisse'',
       names_it = ''Svizzera'', names_en = ''Switzerland'' \<rparr>),
     (''CI'', \<lparr> data_bfs_code = ''8310'', data_iso3 = ''CIV'',
       names_de = (''C'' @ [CHR 0xF4] @ ''te d'' @ [CHR 0x27] @ ''Ivoire''), names_fr = (''C'' @ [CHR 0xF4] @ ''te d'' @ [CHR 0x27] @ ''Ivoire''),
       names_it = (''C'' @ [CHR 0xF4] @ ''te d'' @ [CHR 0x27] @ ''Ivoire''), names_en = (''C'' @ [CHR 0xF4] @ ''te d'' @ [CHR 0x27] @ ''Ivoire'') \<rparr>),
     (''CK'', \<lparr> data_bfs_code = ''8682'', data_iso3 = ''COK'',
       names_de = ''Cookinseln'', names_fr = ([CHR 0xCE] @ ''les Cook''),
       names_it = ''Isole Cook'', names_en = ''Cook Islands'' \<rparr>),
     (''CL'', \<lparr> data_bfs_code = ''8407'', data_iso3 = ''CHL'',
       names_de = ''Chile'', names_fr = ''Chili'',
       names_it = ''Cile'', names_en = ''Chile'' \<rparr>),
     (''CM'', \<lparr> data_bfs_code = ''8317'', data_iso3 = ''CMR'',
       names_de = ''Kamerun'', names_fr = ''Cameroun'',
       names_it = ''Camerun'', names_en = ''Cameroon'' \<rparr>),
     (''CN'', \<lparr> data_bfs_code = ''8508'', data_iso3 = ''CHN'',
       names_de = ''China'', names_fr = ''Chine'',
       names_it = ''Cina'', names_en = ''China'' \<rparr>),
     (''CO'', \<lparr> data_bfs_code = ''8424'', data_iso3 = ''COL'',
       names_de = ''Kolumbien'', names_fr = ''Colombie'',
       names_it = ''Colombia'', names_en = ''Colombia'' \<rparr>),
     (''CR'', \<lparr> data_bfs_code = ''8408'', data_iso3 = ''CRI'',
       names_de = ''Costa Rica'', names_fr = ''Costa Rica'',
       names_it = ''Costa Rica'', names_en = ''Costa Rica'' \<rparr>),
     (''CU'', \<lparr> data_bfs_code = ''8425'', data_iso3 = ''CUB'',
       names_de = ''Kuba'', names_fr = ''Cuba'',
       names_it = ''Cuba'', names_en = ''Cuba'' \<rparr>),
     (''CV'', \<lparr> data_bfs_code = ''8319'', data_iso3 = ''CPV'',
       names_de = ''Cabo Verde'', names_fr = ''Cabo Verde'',
       names_it = ''Cabo Verde'', names_en = ''Cabo Verde'' \<rparr>),
     (''CW'', \<lparr> data_bfs_code = ''8484'', data_iso3 = ''CUW'',
       names_de = (''Cura'' @ [CHR 0xE7] @ ''ao''), names_fr = (''Cura'' @ [CHR 0xE7] @ ''ao''),
       names_it = (''Cura'' @ [CHR 0xE7] @ ''ao''), names_en = (''Cura'' @ [CHR 0xE7] @ ''ao'') \<rparr>),
     (''CX'', \<lparr> data_bfs_code = ''8655'', data_iso3 = ''CXR'',
       names_de = ''Weihnachtsinsel'', names_fr = ([CHR 0xCE] @ ''le Christmas (Australie)''),
       names_it = ''Isola Christmas'', names_en = ''Christmas Island'' \<rparr>),
     (''CY'', \<lparr> data_bfs_code = ''8242'', data_iso3 = ''CYP'',
       names_de = ''Zypern'', names_fr = ''Chypre'',
       names_it = ''Cipro'', names_en = ''Cyprus'' \<rparr>),
     (''CZ'', \<lparr> data_bfs_code = ''8244'', data_iso3 = ''CZE'',
       names_de = ''Tschechien'', names_fr = (''Tch'' @ [CHR 0xE9] @ ''quie''),
       names_it = ''Cechia'', names_en = ''Czechia'' \<rparr>),
     (''DE'', \<lparr> data_bfs_code = ''8207'', data_iso3 = ''DEU'',
       names_de = ''Deutschland'', names_fr = ''Allemagne'',
       names_it = ''Germania'', names_en = ''Germany'' \<rparr>),
     (''DJ'', \<lparr> data_bfs_code = ''8303'', data_iso3 = ''DJI'',
       names_de = ''Dschibuti'', names_fr = ''Djibouti'',
       names_it = ''Gibuti'', names_en = ''Djibouti'' \<rparr>),
     (''DK'', \<lparr> data_bfs_code = ''8206'', data_iso3 = ''DNK'',
       names_de = (''D'' @ [CHR 0xE4] @ ''nemark''), names_fr = ''Danemark'',
       names_it = ''Danimarca'', names_en = ''Denmark'' \<rparr>),
     (''DM'', \<lparr> data_bfs_code = ''8440'', data_iso3 = ''DMA'',
       names_de = ''Dominica'', names_fr = ''Dominique'',
       names_it = ''Dominica'', names_en = ''Dominica'' \<rparr>),
     (''DO'', \<lparr> data_bfs_code = ''8409'', data_iso3 = ''DOM'',
       names_de = ''Dominikanische Republik'', names_fr = (''R'' @ [CHR 0xE9] @ ''publique dominicaine''),
       names_it = ''Repubblica dominicana'', names_en = ''Dominican Republic'' \<rparr>),
     (''DZ'', \<lparr> data_bfs_code = ''8304'', data_iso3 = ''DZA'',
       names_de = ''Algerien'', names_fr = (''Alg'' @ [CHR 0xE9] @ ''rie''),
       names_it = ''Algeria'', names_en = ''Algeria'' \<rparr>),
     (''EC'', \<lparr> data_bfs_code = ''8410'', data_iso3 = ''ECU'',
       names_de = ''Ecuador'', names_fr = ([CHR 0xC9] @ ''quateur''),
       names_it = ''Ecuador'', names_en = ''Ecuador'' \<rparr>),
     (''EE'', \<lparr> data_bfs_code = ''8260'', data_iso3 = ''EST'',
       names_de = ''Estland'', names_fr = ''Estonie'',
       names_it = ''Estonia'', names_en = ''Estonia'' \<rparr>),
     (''EG'', \<lparr> data_bfs_code = ''8359'', data_iso3 = ''EGY'',
       names_de = ([CHR 0xC4] @ ''gypten''), names_fr = ([CHR 0xC9] @ ''gypte''),
       names_it = ''Egitto'', names_en = ''Egypt'' \<rparr>),
     (''EH'', \<lparr> data_bfs_code = ''8372'', data_iso3 = ''ESH'',
       names_de = ''Westsahara'', names_fr = ''Sahara Occidental'',
       names_it = ''Sahara Occidentale'', names_en = ''Western Sahara'' \<rparr>),
     (''ER'', \<lparr> data_bfs_code = ''8362'', data_iso3 = ''ERI'',
       names_de = ''Eritrea'', names_fr = ([CHR 0xC9] @ ''rythr'' @ [CHR 0xE9] @ ''e''),
       names_it = ''Eritrea'', names_en = ''Eritrea'' \<rparr>),
     (''ES'', \<lparr> data_bfs_code = ''8236'', data_iso3 = ''ESP'',
       names_de = ''Spanien'', names_fr = ''Espagne'',
       names_it = ''Spagna'', names_en = ''Spain'' \<rparr>),
     (''ET'', \<lparr> data_bfs_code = ''8302'', data_iso3 = ''ETH'',
       names_de = ([CHR 0xC4] @ ''thiopien''), names_fr = ([CHR 0xC9] @ ''thiopie''),
       names_it = ''Etiopia'', names_en = ''Ethiopia'' \<rparr>),
     (''FI'', \<lparr> data_bfs_code = ''8211'', data_iso3 = ''FIN'',
       names_de = ''Finnland'', names_fr = ''Finlande'',
       names_it = ''Finlandia'', names_en = ''Finland'' \<rparr>),
     (''FJ'', \<lparr> data_bfs_code = ''8602'', data_iso3 = ''FJI'',
       names_de = ''Fidschi'', names_fr = ''Fidji'',
       names_it = ''Figi'', names_en = ''Fiji'' \<rparr>),
     (''FK'', \<lparr> data_bfs_code = ''8412'', data_iso3 = ''FLK'',
       names_de = ''Falklandinseln'', names_fr = ([CHR 0xCE] @ ''les Falkland''),
       names_it = ''Isole Falkland'', names_en = ''Falkland Islands'' \<rparr>),
     (''FM'', \<lparr> data_bfs_code = ''8618'', data_iso3 = ''FSM'',
       names_de = ''Mikronesien'', names_fr = (''Micron'' @ [CHR 0xE9] @ ''sie''),
       names_it = ''Micronesia'', names_en = ''Micronesia'' \<rparr>),
     (''FO'', \<lparr> data_bfs_code = ''8210'', data_iso3 = ''FRO'',
       names_de = (''F'' @ [CHR 0xE4] @ ''r'' @ [CHR 0xF6] @ ''er''), names_fr = ([CHR 0xCE] @ ''les F'' @ [CHR 0xE9] @ ''ro'' @ [CHR 0xE9]),
       names_it = ''Isole Faer Oer'', names_en = ''Faeroe Islands'' \<rparr>),
     (''FR'', \<lparr> data_bfs_code = ''8212'', data_iso3 = ''FRA'',
       names_de = ''Frankreich'', names_fr = ''France'',
       names_it = ''Francia'', names_en = ''France'' \<rparr>),
     (''GA'', \<lparr> data_bfs_code = ''8311'', data_iso3 = ''GAB'',
       names_de = ''Gabun'', names_fr = ''Gabon'',
       names_it = ''Gabon'', names_en = ''Gabon'' \<rparr>),
     (''GB'', \<lparr> data_bfs_code = ''8215'', data_iso3 = ''GBR'',
       names_de = (''Vereinigtes K'' @ [CHR 0xF6] @ ''nigreich''), names_fr = ''Royaume-Uni'',
       names_it = ''Regno Unito'', names_en = ''United Kingdom'' \<rparr>),
     (''GD'', \<lparr> data_bfs_code = ''8441'', data_iso3 = ''GRD'',
       names_de = ''Grenada'', names_fr = ''Grenade'',
       names_it = ''Grenada'', names_en = ''Grenada'' \<rparr>),
     (''GE'', \<lparr> data_bfs_code = ''8562'', data_iso3 = ''GEO'',
       names_de = ''Georgien'', names_fr = (''G'' @ [CHR 0xE9] @ ''orgie''),
       names_it = ''Georgia'', names_en = ''Georgia'' \<rparr>),
     (''GF'', \<lparr> data_bfs_code = ''8416'', data_iso3 = ''GUF'',
       names_de = (''Franz'' @ [CHR 0xF6] @ ''sisch-Guayana''), names_fr = (''Guyane Fran'' @ [CHR 0xE7] @ ''aise''),
       names_it = ''Guiana Francese'', names_en = ''French Guyana'' \<rparr>),
     (''GG'', \<lparr> data_bfs_code = ''8272'', data_iso3 = ''GGY'',
       names_de = ''Guernsey'', names_fr = ''Guernesey'',
       names_it = ''Guernsey'', names_en = ''Guernsey'' \<rparr>),
     (''GH'', \<lparr> data_bfs_code = ''8313'', data_iso3 = ''GHA'',
       names_de = ''Ghana'', names_fr = ''Ghana'',
       names_it = ''Ghana'', names_en = ''Ghana'' \<rparr>),
     (''GI'', \<lparr> data_bfs_code = ''8213'', data_iso3 = ''GIB'',
       names_de = ''Gibraltar'', names_fr = ''Gibraltar'',
       names_it = ''Gibilterra'', names_en = ''Gibraltar'' \<rparr>),
     (''GL'', \<lparr> data_bfs_code = ''8413'', data_iso3 = ''GRL'',
       names_de = (''Gr'' @ [CHR 0xF6] @ ''nland''), names_fr = ''Groenland'',
       names_it = ''Groenlandia'', names_en = ''Greenland'' \<rparr>),
     (''GM'', \<lparr> data_bfs_code = ''8312'', data_iso3 = ''GMB'',
       names_de = ''Gambia'', names_fr = ''Gambie'',
       names_it = ''Gambia'', names_en = ''Gambia'' \<rparr>),
     (''GN'', \<lparr> data_bfs_code = ''8315'', data_iso3 = ''GIN'',
       names_de = ''Guinea'', names_fr = (''Guin'' @ [CHR 0xE9] @ ''e''),
       names_it = ''Guinea'', names_en = ''Guinea'' \<rparr>),
     (''GP'', \<lparr> data_bfs_code = ''8414'', data_iso3 = ''GLP'',
       names_de = ''Guadeloupe'', names_fr = ''Guadeloupe'',
       names_it = ''Guadalupa'', names_en = ''Guadeloupe'' \<rparr>),
     (''GQ'', \<lparr> data_bfs_code = ''8301'', data_iso3 = ''GNQ'',
       names_de = ([CHR 0xC4] @ ''quatorialguinea''), names_fr = (''Guin'' @ [CHR 0xE9] @ ''e '' @ [CHR 0xE9] @ ''quatoriale''),
       names_it = ''Guinea equatoriale'', names_en = ''Equatorial Guinea'' \<rparr>),
     (''GR'', \<lparr> data_bfs_code = ''8214'', data_iso3 = ''GRC'',
       names_de = ''Griechenland'', names_fr = (''Gr'' @ [CHR 0xE8] @ ''ce''),
       names_it = ''Grecia'', names_en = ''Greece'' \<rparr>),
     (''GS'', \<lparr> data_bfs_code = ''8483'', data_iso3 = ''SGS'',
       names_de = (''S'' @ [CHR 0xFC] @ ''dgeorgien und S'' @ [CHR 0xFC] @ ''dliche Sandwichinseln''), names_fr = (''G'' @ [CHR 0xE9] @ ''orgie du Sud et '' @ [CHR 0xCE] @ ''les Sandwich du Sud''),
       names_it = ''Isole Georgia del Sud e Sandwich del Sud'', names_en = ''South Georgia and the South Sandwich Islands'' \<rparr>),
     (''GT'', \<lparr> data_bfs_code = ''8415'', data_iso3 = ''GTM'',
       names_de = ''Guatemala'', names_fr = ''Guatemala'',
       names_it = ''Guatemala'', names_en = ''Guatemala'' \<rparr>),
     (''GU'', \<lparr> data_bfs_code = ''8632'', data_iso3 = ''GUM'',
       names_de = ''Guam'', names_fr = ''Guam'',
       names_it = ''Guam'', names_en = ''Guam'' \<rparr>),
     (''GW'', \<lparr> data_bfs_code = ''8314'', data_iso3 = ''GNB'',
       names_de = ''Guinea-Bissau'', names_fr = (''Guin'' @ [CHR 0xE9] @ ''e-Bissau''),
       names_it = ''Guinea-Bissau'', names_en = ''Guinea-Bissau'' \<rparr>),
     (''GY'', \<lparr> data_bfs_code = ''8417'', data_iso3 = ''GUY'',
       names_de = ''Guyana'', names_fr = ''Guyana'',
       names_it = ''Guyana'', names_en = ''Guyana'' \<rparr>),
     (''HK'', \<lparr> data_bfs_code = ''8509'', data_iso3 = ''HKG'',
       names_de = ''Hongkong'', names_fr = ''Hong Kong'',
       names_it = ''Hong Kong'', names_en = ''Hong Kong'' \<rparr>),
     (''HM'', \<lparr> data_bfs_code = ''8653'', data_iso3 = ''HMD'',
       names_de = ''Heard und McDonaldinseln'', names_fr = ([CHR 0xCE] @ ''les-Heard-et-McDonald''),
       names_it = ''Isole Heard e McDonald'', names_en = ''Heard Island and McDonald Islands'' \<rparr>),
     (''HN'', \<lparr> data_bfs_code = ''8420'', data_iso3 = ''HND'',
       names_de = ''Honduras'', names_fr = ''Honduras'',
       names_it = ''Honduras'', names_en = ''Honduras'' \<rparr>),
     (''HR'', \<lparr> data_bfs_code = ''8250'', data_iso3 = ''HRV'',
       names_de = ''Kroatien'', names_fr = ''Croatie'',
       names_it = ''Croazia'', names_en = ''Croatia'' \<rparr>),
     (''HT'', \<lparr> data_bfs_code = ''8418'', data_iso3 = ''HTI'',
       names_de = ''Haiti'', names_fr = (''Ha'' @ [CHR 0xEF] @ ''ti''),
       names_it = ''Haiti'', names_en = ''Haiti'' \<rparr>),
     (''HU'', \<lparr> data_bfs_code = ''8240'', data_iso3 = ''HUN'',
       names_de = ''Ungarn'', names_fr = ''Hongrie'',
       names_it = ''Ungheria'', names_en = ''Hungary'' \<rparr>),
     (''ID'', \<lparr> data_bfs_code = ''8511'', data_iso3 = ''IDN'',
       names_de = ''Indonesien'', names_fr = (''Indon'' @ [CHR 0xE9] @ ''sie''),
       names_it = ''Indonesia'', names_en = ''Indonesia'' \<rparr>),
     (''IE'', \<lparr> data_bfs_code = ''8216'', data_iso3 = ''IRL'',
       names_de = ''Irland'', names_fr = ''Irlande'',
       names_it = ''Irlanda'', names_en = ''Ireland'' \<rparr>),
     (''IL'', \<lparr> data_bfs_code = ''8514'', data_iso3 = ''ISR'',
       names_de = ''Israel'', names_fr = (''Isra'' @ [CHR 0xEB] @ ''l''),
       names_it = ''Israele'', names_en = ''Israel'' \<rparr>),
     (''IM'', \<lparr> data_bfs_code = ''8225'', data_iso3 = ''IMN'',
       names_de = ''Insel Man'', names_fr = ([CHR 0xCE] @ ''le de Man''),
       names_it = ''Isola di Man'', names_en = ''Isle of Man'' \<rparr>),
     (''IN'', \<lparr> data_bfs_code = ''8510'', data_iso3 = ''IND'',
       names_de = ''Indien'', names_fr = ''Inde'',
       names_it = ''India'', names_en = ''India'' \<rparr>),
     (''IO'', \<lparr> data_bfs_code = ''8371'', data_iso3 = ''IOT'',
       names_de = ''Britische Territorien im Indischen Ozean'', names_fr = (''Territoires britanniques dans l'' @ [CHR 0x27] @ ''oc'' @ [CHR 0xE9] @ ''an indien''),
       names_it = (''Territori britannici nell'' @ [CHR 0x27] @ ''oceano indiano''), names_en = ''British Territories in the Indian Ocean'' \<rparr>),
     (''IQ'', \<lparr> data_bfs_code = ''8512'', data_iso3 = ''IRQ'',
       names_de = ''Irak'', names_fr = ''Irak'',
       names_it = ''Iraq'', names_en = ''Iraq'' \<rparr>),
     (''IR'', \<lparr> data_bfs_code = ''8513'', data_iso3 = ''IRN'',
       names_de = ''Iran'', names_fr = ''Iran'',
       names_it = ''Iran'', names_en = ''Iran'' \<rparr>),
     (''IS'', \<lparr> data_bfs_code = ''8217'', data_iso3 = ''ISL'',
       names_de = ''Island'', names_fr = ''Islande'',
       names_it = ''Islanda'', names_en = ''Iceland'' \<rparr>),
     (''IT'', \<lparr> data_bfs_code = ''8218'', data_iso3 = ''ITA'',
       names_de = ''Italien'', names_fr = ''Italie'',
       names_it = ''Italia'', names_en = ''Italy'' \<rparr>),
     (''JE'', \<lparr> data_bfs_code = ''8271'', data_iso3 = ''JEY'',
       names_de = ''Jersey'', names_fr = ''Jersey'',
       names_it = ''Jersey'', names_en = ''Jersey'' \<rparr>),
     (''JM'', \<lparr> data_bfs_code = ''8421'', data_iso3 = ''JAM'',
       names_de = ''Jamaika'', names_fr = (''Jama'' @ [CHR 0xEF] @ ''que''),
       names_it = ''Giamaica'', names_en = ''Jamaica'' \<rparr>),
     (''JO'', \<lparr> data_bfs_code = ''8517'', data_iso3 = ''JOR'',
       names_de = ''Jordanien'', names_fr = ''Jordanie'',
       names_it = ''Giordania'', names_en = ''Jordan'' \<rparr>),
     (''JP'', \<lparr> data_bfs_code = ''8515'', data_iso3 = ''JPN'',
       names_de = ''Japan'', names_fr = ''Japon'',
       names_it = ''Giappone'', names_en = ''Japan'' \<rparr>),
     (''KE'', \<lparr> data_bfs_code = ''8320'', data_iso3 = ''KEN'',
       names_de = ''Kenia'', names_fr = ''Kenya'',
       names_it = ''Kenia'', names_en = ''Kenya'' \<rparr>),
     (''KG'', \<lparr> data_bfs_code = ''8564'', data_iso3 = ''KGZ'',
       names_de = ''Kirgisistan'', names_fr = ''Kirghizistan'',
       names_it = ''Kirghizistan'', names_en = ''Kyrgyzstan'' \<rparr>),
     (''KH'', \<lparr> data_bfs_code = ''8518'', data_iso3 = ''KHM'',
       names_de = ''Kambodscha'', names_fr = ''Cambodge'',
       names_it = ''Cambogia'', names_en = ''Cambodia'' \<rparr>),
     (''KI'', \<lparr> data_bfs_code = ''8616'', data_iso3 = ''KIR'',
       names_de = ''Kiribati'', names_fr = ''Kiribati'',
       names_it = ''Kiribati'', names_en = ''Kiribati'' \<rparr>),
     (''KM'', \<lparr> data_bfs_code = ''8321'', data_iso3 = ''COM'',
       names_de = ''Komoren'', names_fr = ''Comores'',
       names_it = ''Comore'', names_en = ''Comoros'' \<rparr>),
     (''KN'', \<lparr> data_bfs_code = ''8445'', data_iso3 = ''KNA'',
       names_de = ''St. Kitts und Nevis'', names_fr = ''Saint-Kitts-et-Nevis'',
       names_it = ''Saint Kitts e Nevis'', names_en = ''Saint Kitts and Nevis'' \<rparr>),
     (''KP'', \<lparr> data_bfs_code = ''8530'', data_iso3 = ''PRK'',
       names_de = ''Korea (Nord-)'', names_fr = (''Cor'' @ [CHR 0xE9] @ ''e (Nord)''),
       names_it = ''Corea (Nord)'', names_en = ''North Korea'' \<rparr>),
     (''KR'', \<lparr> data_bfs_code = ''8539'', data_iso3 = ''KOR'',
       names_de = (''Korea (S'' @ [CHR 0xFC] @ ''d-)''), names_fr = (''Cor'' @ [CHR 0xE9] @ ''e (Sud)''),
       names_it = ''Corea (Sud)'', names_en = ''South Korea'' \<rparr>),
     (''KW'', \<lparr> data_bfs_code = ''8521'', data_iso3 = ''KWT'',
       names_de = ''Kuwait'', names_fr = (''Kowe'' @ [CHR 0xEF] @ ''t''),
       names_it = ''Kuwait'', names_en = ''Kuwait'' \<rparr>),
     (''KY'', \<lparr> data_bfs_code = ''8473'', data_iso3 = ''CYM'',
       names_de = ''Kaimaninseln'', names_fr = ([CHR 0xCE] @ ''les Cayman''),
       names_it = ''Isole Cayman'', names_en = ''Cayman Islands'' \<rparr>),
     (''KZ'', \<lparr> data_bfs_code = ''8563'', data_iso3 = ''KAZ'',
       names_de = ''Kasachstan'', names_fr = ''Kazakhstan'',
       names_it = ''Kazakstan'', names_en = ''Kazakhstan'' \<rparr>),
     (''LA'', \<lparr> data_bfs_code = ''8522'', data_iso3 = ''LAO'',
       names_de = ''Laos'', names_fr = ''Laos'',
       names_it = ''Laos'', names_en = ''Laos'' \<rparr>),
     (''LB'', \<lparr> data_bfs_code = ''8523'', data_iso3 = ''LBN'',
       names_de = ''Libanon'', names_fr = ''Liban'',
       names_it = ''Libano'', names_en = ''Lebanon'' \<rparr>),
     (''LC'', \<lparr> data_bfs_code = ''8443'', data_iso3 = ''LCA'',
       names_de = ''St. Lucia'', names_fr = ''Sainte-Lucie'',
       names_it = ''Saint Lucia'', names_en = ''Saint Lucia'' \<rparr>),
     (''LI'', \<lparr> data_bfs_code = ''8222'', data_iso3 = ''LIE'',
       names_de = ''Liechtenstein'', names_fr = ''Liechtenstein'',
       names_it = ''Liechtenstein'', names_en = ''Liechtenstein'' \<rparr>),
     (''LK'', \<lparr> data_bfs_code = ''8506'', data_iso3 = ''LKA'',
       names_de = ''Sri Lanka'', names_fr = ''Sri Lanka'',
       names_it = ''Sri Lanka'', names_en = ''Sri Lanka'' \<rparr>),
     (''LR'', \<lparr> data_bfs_code = ''8325'', data_iso3 = ''LBR'',
       names_de = ''Liberia'', names_fr = (''Lib'' @ [CHR 0xE9] @ ''ria''),
       names_it = ''Liberia'', names_en = ''Liberia'' \<rparr>),
     (''LS'', \<lparr> data_bfs_code = ''8324'', data_iso3 = ''LSO'',
       names_de = ''Lesotho'', names_fr = ''Lesotho'',
       names_it = ''Lesotho'', names_en = ''Lesotho'' \<rparr>),
     (''LT'', \<lparr> data_bfs_code = ''8262'', data_iso3 = ''LTU'',
       names_de = ''Litauen'', names_fr = ''Lituanie'',
       names_it = ''Lituania'', names_en = ''Lithuania'' \<rparr>),
     (''LU'', \<lparr> data_bfs_code = ''8223'', data_iso3 = ''LUX'',
       names_de = ''Luxemburg'', names_fr = ''Luxembourg'',
       names_it = ''Lussemburgo'', names_en = ''Luxembourg'' \<rparr>),
     (''LV'', \<lparr> data_bfs_code = ''8261'', data_iso3 = ''LVA'',
       names_de = ''Lettland'', names_fr = ''Lettonie'',
       names_it = ''Lettonia'', names_en = ''Latvia'' \<rparr>),
     (''LY'', \<lparr> data_bfs_code = ''8326'', data_iso3 = ''LBY'',
       names_de = ''Libyen'', names_fr = ''Libye'',
       names_it = ''Libia'', names_en = ''Libya'' \<rparr>),
     (''MA'', \<lparr> data_bfs_code = ''8331'', data_iso3 = ''MAR'',
       names_de = ''Marokko'', names_fr = ''Maroc'',
       names_it = ''Marocco'', names_en = ''Morocco'' \<rparr>),
     (''MC'', \<lparr> data_bfs_code = ''8226'', data_iso3 = ''MCO'',
       names_de = ''Monaco'', names_fr = ''Monaco'',
       names_it = ''Monaco'', names_en = ''Monaco'' \<rparr>),
     (''MD'', \<lparr> data_bfs_code = ''8263'', data_iso3 = ''MDA'',
       names_de = ''Moldova'', names_fr = ''Moldova'',
       names_it = ''Moldova'', names_en = ''Moldova'' \<rparr>),
     (''ME'', \<lparr> data_bfs_code = ''8254'', data_iso3 = ''MNE'',
       names_de = ''Montenegro'', names_fr = (''Mont'' @ [CHR 0xE9] @ ''n'' @ [CHR 0xE9] @ ''gro''),
       names_it = ''Montenegro'', names_en = ''Montenegro'' \<rparr>),
     (''MF'', \<lparr> data_bfs_code = ''8448'', data_iso3 = ''MAF'',
       names_de = ''Saint-Martin (Frankreich)'', names_fr = ''Saint-Martin (France)'',
       names_it = ''Saint-Martin (Francia)'', names_en = ''Saint Martin (France)'' \<rparr>),
     (''MG'', \<lparr> data_bfs_code = ''8327'', data_iso3 = ''MDG'',
       names_de = ''Madagaskar'', names_fr = ''Madagascar'',
       names_it = ''Madagascar'', names_en = ''Madagascar'' \<rparr>),
     (''MH'', \<lparr> data_bfs_code = ''8617'', data_iso3 = ''MHL'',
       names_de = ''Marshallinseln'', names_fr = ([CHR 0xCE] @ ''les Marshall''),
       names_it = ''Isole Marshall'', names_en = ''Marshall Islands'' \<rparr>),
     (''MK'', \<lparr> data_bfs_code = ''8255'', data_iso3 = ''MKD'',
       names_de = ''Mazedonien'', names_fr = (''Mac'' @ [CHR 0xE9] @ ''doine''),
       names_it = ''Macedonia'', names_en = ''Macedonia'' \<rparr>),
     (''ML'', \<lparr> data_bfs_code = ''8330'', data_iso3 = ''MLI'',
       names_de = ''Mali'', names_fr = ''Mali'',
       names_it = ''Mali'', names_en = ''Mali'' \<rparr>),
     (''MM'', \<lparr> data_bfs_code = ''8505'', data_iso3 = ''MMR'',
       names_de = ''Myanmar'', names_fr = ''Myanmar'',
       names_it = ''Myanmar'', names_en = ''Myanmar'' \<rparr>),
     (''MN'', \<lparr> data_bfs_code = ''8528'', data_iso3 = ''MNG'',
       names_de = ''Mongolei'', names_fr = ''Mongolie'',
       names_it = ''Mongolia'', names_en = ''Mongolia'' \<rparr>),
     (''MO'', \<lparr> data_bfs_code = ''8524'', data_iso3 = ''MAC'',
       names_de = ''Macao'', names_fr = ''Macao'',
       names_it = ''Macao'', names_en = ''Macao'' \<rparr>),
     (''MP'', \<lparr> data_bfs_code = ''8630'', data_iso3 = ''MNP'',
       names_de = (''N'' @ [CHR 0xF6] @ ''rdliche Marianen''), names_fr = ''Mariannes du Nord'',
       names_it = ''Marianne del Nord'', names_en = ''Northern Marianas'' \<rparr>),
     (''MQ'', \<lparr> data_bfs_code = ''8426'', data_iso3 = ''MTQ'',
       names_de = ''Martinique'', names_fr = ''Martinique'',
       names_it = ''Martinica'', names_en = ''Martinique'' \<rparr>),
     (''MR'', \<lparr> data_bfs_code = ''8332'', data_iso3 = ''MRT'',
       names_de = ''Mauretanien'', names_fr = ''Mauritanie'',
       names_it = ''Mauritania'', names_en = ''Mauritania'' \<rparr>),
     (''MS'', \<lparr> data_bfs_code = ''8475'', data_iso3 = ''MSR'',
       names_de = ''Montserrat'', names_fr = ''Montserrat'',
       names_it = ''Monserrat'', names_en = ''Montserrat'' \<rparr>),
     (''MT'', \<lparr> data_bfs_code = ''8224'', data_iso3 = ''MLT'',
       names_de = ''Malta'', names_fr = ''Malte'',
       names_it = ''Malta'', names_en = ''Malta'' \<rparr>),
     (''MU'', \<lparr> data_bfs_code = ''8333'', data_iso3 = ''MUS'',
       names_de = ''Mauritius'', names_fr = ''Maurice'',
       names_it = ''Maurizio'', names_en = ''Mauritius'' \<rparr>),
     (''MV'', \<lparr> data_bfs_code = ''8526'', data_iso3 = ''MDV'',
       names_de = ''Malediven'', names_fr = ''Maldives'',
       names_it = ''Maldive'', names_en = ''Maldives'' \<rparr>),
     (''MW'', \<lparr> data_bfs_code = ''8329'', data_iso3 = ''MWI'',
       names_de = ''Malawi'', names_fr = ''Malawi'',
       names_it = ''Malawi'', names_en = ''Malawi'' \<rparr>),
     (''MX'', \<lparr> data_bfs_code = ''8427'', data_iso3 = ''MEX'',
       names_de = ''Mexiko'', names_fr = ''Mexique'',
       names_it = ''Messico'', names_en = ''Mexico'' \<rparr>),
     (''MY'', \<lparr> data_bfs_code = ''8525'', data_iso3 = ''MYS'',
       names_de = ''Malaysia'', names_fr = ''Malaisie'',
       names_it = ''Malaysia'', names_en = ''Malaysia'' \<rparr>),
     (''MZ'', \<lparr> data_bfs_code = ''8334'', data_iso3 = ''MOZ'',
       names_de = ''Mosambik'', names_fr = ''Mozambique'',
       names_it = ''Mozambico'', names_en = ''Mozambique'' \<rparr>),
     (''NA'', \<lparr> data_bfs_code = ''8351'', data_iso3 = ''NAM'',
       names_de = ''Namibia'', names_fr = ''Namibie'',
       names_it = ''Namibia'', names_en = ''Namibia'' \<rparr>),
     (''NC'', \<lparr> data_bfs_code = ''8606'', data_iso3 = ''NCL'',
       names_de = ''Neukaledonien'', names_fr = (''Nouvelle-Cal'' @ [CHR 0xE9] @ ''donie''),
       names_it = ''Nuova Caledonia'', names_en = ''New Caledonia'' \<rparr>),
     (''NE'', \<lparr> data_bfs_code = ''8335'', data_iso3 = ''NER'',
       names_de = ''Niger'', names_fr = ''Niger'',
       names_it = ''Niger'', names_en = ''Niger'' \<rparr>),
     (''NF'', \<lparr> data_bfs_code = ''8654'', data_iso3 = ''NFK'',
       names_de = ''Norfolkinsel'', names_fr = ([CHR 0xCE] @ ''le Norfolk''),
       names_it = ''Isola Norfolk'', names_en = ''Norfolk Island'' \<rparr>),
     (''NG'', \<lparr> data_bfs_code = ''8336'', data_iso3 = ''NGA'',
       names_de = ''Nigeria'', names_fr = (''Nig'' @ [CHR 0xE9] @ ''ria''),
       names_it = ''Nigeria'', names_en = ''Nigeria'' \<rparr>),
     (''NI'', \<lparr> data_bfs_code = ''8429'', data_iso3 = ''NIC'',
       names_de = ''Nicaragua'', names_fr = ''Nicaragua'',
       names_it = ''Nicaragua'', names_en = ''Nicaragua'' \<rparr>),
     (''NL'', \<lparr> data_bfs_code = ''8227'', data_iso3 = ''NLD'',
       names_de = ''Niederlande'', names_fr = ''Pays-Bas'',
       names_it = ''Paesi Bassi'', names_en = ''Netherlands'' \<rparr>),
     (''NO'', \<lparr> data_bfs_code = ''8228'', data_iso3 = ''NOR'',
       names_de = ''Norwegen'', names_fr = (''Norv'' @ [CHR 0xE8] @ ''ge''),
       names_it = ''Norvegia'', names_en = ''Norway'' \<rparr>),
     (''NP'', \<lparr> data_bfs_code = ''8529'', data_iso3 = ''NPL'',
       names_de = ''Nepal'', names_fr = (''N'' @ [CHR 0xE9] @ ''pal''),
       names_it = ''Nepal'', names_en = ''Nepal'' \<rparr>),
     (''NR'', \<lparr> data_bfs_code = ''8604'', data_iso3 = ''NRU'',
       names_de = ''Nauru'', names_fr = ''Nauru'',
       names_it = ''Nauru'', names_en = ''Nauru'' \<rparr>),
     (''NU'', \<lparr> data_bfs_code = ''8683'', data_iso3 = ''NIU'',
       names_de = ''Niue'', names_fr = (''Niou'' @ [CHR 0xE9]),
       names_it = ''Niue'', names_en = ''Niue'' \<rparr>),
     (''NZ'', \<lparr> data_bfs_code = ''8607'', data_iso3 = ''NZL'',
       names_de = ''Neuseeland'', names_fr = (''Nouvelle-Z'' @ [CHR 0xE9] @ ''lande''),
       names_it = ''Nuova Zelanda'', names_en = ''New Zealand'' \<rparr>),
     (''OM'', \<lparr> data_bfs_code = ''8527'', data_iso3 = ''OMN'',
       names_de = ''Oman'', names_fr = ''Oman'',
       names_it = ''Oman'', names_en = ''Oman'' \<rparr>),
     (''PA'', \<lparr> data_bfs_code = ''8430'', data_iso3 = ''PAN'',
       names_de = ''Panama'', names_fr = ''Panama'',
       names_it = ''Panama'', names_en = ''Panama'' \<rparr>),
     (''PE'', \<lparr> data_bfs_code = ''8432'', data_iso3 = ''PER'',
       names_de = ''Peru'', names_fr = (''P'' @ [CHR 0xE9] @ ''rou''),
       names_it = (''Per'' @ [CHR 0xF9]), names_en = ''Peru'' \<rparr>),
     (''PF'', \<lparr> data_bfs_code = ''8671'', data_iso3 = ''PYF'',
       names_de = (''Franz'' @ [CHR 0xF6] @ ''sisch-Polynesien''), names_fr = (''Polyn'' @ [CHR 0xE9] @ ''sie fran'' @ [CHR 0xE7] @ ''aise''),
       names_it = ''Polinesia francese'', names_en = ''French Polynesia'' \<rparr>),
     (''PG'', \<lparr> data_bfs_code = ''8608'', data_iso3 = ''PNG'',
       names_de = ''Papua-Neuguinea'', names_fr = (''Papouasie-Nouvelle-Guin'' @ [CHR 0xE9] @ ''e''),
       names_it = ''Papua Nuova Guinea'', names_en = ''Papua New Guinea'' \<rparr>),
     (''PH'', \<lparr> data_bfs_code = ''8534'', data_iso3 = ''PHL'',
       names_de = ''Philippinen'', names_fr = ''Philippines'',
       names_it = ''Filippine'', names_en = ''Philippines'' \<rparr>),
     (''PK'', \<lparr> data_bfs_code = ''8533'', data_iso3 = ''PAK'',
       names_de = ''Pakistan'', names_fr = ''Pakistan'',
       names_it = ''Pakistan'', names_en = ''Pakistan'' \<rparr>),
     (''PL'', \<lparr> data_bfs_code = ''8230'', data_iso3 = ''POL'',
       names_de = ''Polen'', names_fr = ''Pologne'',
       names_it = ''Polonia'', names_en = ''Poland'' \<rparr>),
     (''PM'', \<lparr> data_bfs_code = ''8434'', data_iso3 = ''SPM'',
       names_de = ''St. Pierre und Miquelon'', names_fr = ''Saint-Pierre-et-Miquelon'',
       names_it = ''Saint-Pierre e Miquelon'', names_en = ''Saint Pierre and Miquelon'' \<rparr>),
     (''PN'', \<lparr> data_bfs_code = ''8685'', data_iso3 = ''PCN'',
       names_de = ''Pitcairninseln'', names_fr = ([CHR 0xCE] @ ''les Pitcairn''),
       names_it = ''Isole Pitcairn'', names_en = ''Pitcairn Islands'' \<rparr>),
     (''PR'', \<lparr> data_bfs_code = ''8433'', data_iso3 = ''PRI'',
       names_de = ''Puerto Rico'', names_fr = ''Porto Rico'',
       names_it = ''Portorico'', names_en = ''Puerto Rico'' \<rparr>),
     (''PS'', \<lparr> data_bfs_code = ''8550'', data_iso3 = ''PSE'',
       names_de = (''Pal'' @ [CHR 0xE4] @ ''stina''), names_fr = ''Palestine'',
       names_it = ''Palestina'', names_en = ''Palestine'' \<rparr>),
     (''PT'', \<lparr> data_bfs_code = ''8231'', data_iso3 = ''PRT'',
       names_de = ''Portugal'', names_fr = ''Portugal'',
       names_it = ''Portogallo'', names_en = ''Portugal'' \<rparr>),
     (''PW'', \<lparr> data_bfs_code = ''8619'', data_iso3 = ''PLW'',
       names_de = ''Palau'', names_fr = ''Palaos'',
       names_it = ''Palau'', names_en = ''Palau'' \<rparr>),
     (''PY'', \<lparr> data_bfs_code = ''8431'', data_iso3 = ''PRY'',
       names_de = ''Paraguay'', names_fr = ''Paraguay'',
       names_it = ''Paraguay'', names_en = ''Paraguay'' \<rparr>),
     (''QA'', \<lparr> data_bfs_code = ''8519'', data_iso3 = ''QAT'',
       names_de = ''Katar'', names_fr = ''Qatar'',
       names_it = ''Qatar'', names_en = ''Qatar'' \<rparr>),
     (''RE'', \<lparr> data_bfs_code = ''8339'', data_iso3 = ''REU'',
       names_de = ''Reunion'', names_fr = (''R'' @ [CHR 0xE9] @ ''union''),
       names_it = ''Riunione'', names_en = (''R'' @ [CHR 0xE9] @ ''union'') \<rparr>),
     (''RO'', \<lparr> data_bfs_code = ''8232'', data_iso3 = ''ROU'',
       names_de = (''Rum'' @ [CHR 0xE4] @ ''nien''), names_fr = ''Roumanie'',
       names_it = ''Romania'', names_en = ''Romania'' \<rparr>),
     (''RS'', \<lparr> data_bfs_code = ''8248'', data_iso3 = ''SRB'',
       names_de = ''Serbien'', names_fr = ''Serbie'',
       names_it = ''Serbia'', names_en = ''Serbia'' \<rparr>),
     (''RU'', \<lparr> data_bfs_code = ''8264'', data_iso3 = ''RUS'',
       names_de = ''Russland'', names_fr = ''Russie'',
       names_it = ''Russia'', names_en = ''Russia'' \<rparr>),
     (''RW'', \<lparr> data_bfs_code = ''8341'', data_iso3 = ''RWA'',
       names_de = ''Ruanda'', names_fr = ''Rwanda'',
       names_it = ''Ruanda'', names_en = ''Rwanda'' \<rparr>),
     (''SA'', \<lparr> data_bfs_code = ''8535'', data_iso3 = ''SAU'',
       names_de = ''Saudi-Arabien'', names_fr = ''Arabie saoudite'',
       names_it = ''Arabia Saudita'', names_en = ''Saudi Arabia'' \<rparr>),
     (''SB'', \<lparr> data_bfs_code = ''8614'', data_iso3 = ''SLB'',
       names_de = ''Salomoninseln'', names_fr = ([CHR 0xCE] @ ''les Salomon''),
       names_it = ''Isole Salomone'', names_en = ''Solomon Islands'' \<rparr>),
     (''SC'', \<lparr> data_bfs_code = ''8346'', data_iso3 = ''SYC'',
       names_de = ''Seychellen'', names_fr = ''Seychelles'',
       names_it = ''Seicelle'', names_en = ''Seychelles'' \<rparr>),
     (''SD'', \<lparr> data_bfs_code = ''8350'', data_iso3 = ''SDN'',
       names_de = ''Sudan'', names_fr = ''Soudan'',
       names_it = ''Sudan'', names_en = ''Sudan'' \<rparr>),
     (''SE'', \<lparr> data_bfs_code = ''8234'', data_iso3 = ''SWE'',
       names_de = ''Schweden'', names_fr = (''Su'' @ [CHR 0xE8] @ ''de''),
       names_it = ''Svezia'', names_en = ''Sweden'' \<rparr>),
     (''SG'', \<lparr> data_bfs_code = ''8537'', data_iso3 = ''SGP'',
       names_de = ''Singapur'', names_fr = ''Singapour'',
       names_it = ''Singapore'', names_en = ''Singapore'' \<rparr>),
     (''SH'', \<lparr> data_bfs_code = ''8375'', data_iso3 = ''SHN'',
       names_de = ''Tristan da Cunha'', names_fr = ''Tristan da Cunha'',
       names_it = ''Tristan da Cunha'', names_en = ''Tristan da Cunha'' \<rparr>),
     (''SI'', \<lparr> data_bfs_code = ''8251'', data_iso3 = ''SVN'',
       names_de = ''Slowenien'', names_fr = (''Slov'' @ [CHR 0xE9] @ ''nie''),
       names_it = ''Slovenia'', names_en = ''Slovenia'' \<rparr>),
     (''SJ'', \<lparr> data_bfs_code = ''8273'', data_iso3 = ''SJM'',
       names_de = ''Svalbard und Jan Mayen'', names_fr = (''Svalbard et '' @ [CHR 0xCE] @ ''le Jan Mayen''),
       names_it = ''Svalbard e Jan Mayen'', names_en = ''Svalbard and Jan Mayen'' \<rparr>),
     (''SK'', \<lparr> data_bfs_code = ''8243'', data_iso3 = ''SVK'',
       names_de = ''Slowakei'', names_fr = ''Slovaquie'',
       names_it = ''Slovacchia'', names_en = ''Slovakia'' \<rparr>),
     (''SL'', \<lparr> data_bfs_code = ''8347'', data_iso3 = ''SLE'',
       names_de = ''Sierra Leone'', names_fr = ''Sierra Leone'',
       names_it = ''Sierra Leone'', names_en = ''Sierra Leone'' \<rparr>),
     (''SM'', \<lparr> data_bfs_code = ''8233'', data_iso3 = ''SMR'',
       names_de = ''San Marino'', names_fr = ''Saint-Marin'',
       names_it = ''San Marino'', names_en = ''San Marino'' \<rparr>),
     (''SN'', \<lparr> data_bfs_code = ''8345'', data_iso3 = ''SEN'',
       names_de = ''Senegal'', names_fr = (''S'' @ [CHR 0xE9] @ ''n'' @ [CHR 0xE9] @ ''gal''),
       names_it = ''Senegal'', names_en = ''Senegal'' \<rparr>),
     (''SO'', \<lparr> data_bfs_code = ''8348'', data_iso3 = ''SOM'',
       names_de = ''Somalia'', names_fr = ''Somalie'',
       names_it = ''Somalia'', names_en = ''Somalia'' \<rparr>),
     (''SR'', \<lparr> data_bfs_code = ''8435'', data_iso3 = ''SUR'',
       names_de = ''Suriname'', names_fr = ''Suriname'',
       names_it = ''Suriname'', names_en = ''Suriname'' \<rparr>),
     (''SS'', \<lparr> data_bfs_code = ''8363'', data_iso3 = ''SSD'',
       names_de = (''S'' @ [CHR 0xFC] @ ''dsudan''), names_fr = ''Soudan du Sud'',
       names_it = ''Sudan del Sud'', names_en = ''South Sudan'' \<rparr>),
     (''ST'', \<lparr> data_bfs_code = ''8344'', data_iso3 = ''STP'',
       names_de = (''S'' @ [CHR 0xE3] @ ''o Tom'' @ [CHR 0xE9] @ '' und Pr'' @ [CHR 0xED] @ ''ncipe''), names_fr = (''Sao Tom'' @ [CHR 0xE9] @ ''-et-Principe''),
       names_it = (''S'' @ [CHR 0xE3] @ ''o Tom'' @ [CHR 0xE9] @ '' e Pr'' @ [CHR 0xED] @ ''ncipe''), names_en = (''S'' @ [CHR 0xE3] @ ''o Tom'' @ [CHR 0xE9] @ '' and Pr'' @ [CHR 0xED] @ ''ncipe'') \<rparr>),
     (''SV'', \<lparr> data_bfs_code = ''8411'', data_iso3 = ''SLV'',
       names_de = ''El Salvador'', names_fr = ''El Salvador'',
       names_it = ''El Salvador'', names_en = ''El Salvador'' \<rparr>),
     (''SX'', \<lparr> data_bfs_code = ''8485'', data_iso3 = ''SXM'',
       names_de = ''Sint Maarten (Niederlande)'', names_fr = ''Sint Maarten (Pays-Bas)'',
       names_it = ''Sint Maarten (Paesi Bassi)'', names_en = ''Sint Maarten (Netherlands)'' \<rparr>),
     (''SY'', \<lparr> data_bfs_code = ''8541'', data_iso3 = ''SYR'',
       names_de = ''Syrien'', names_fr = ''Syrie'',
       names_it = ''Siria'', names_en = ''Syria'' \<rparr>),
     (''SZ'', \<lparr> data_bfs_code = ''8352'', data_iso3 = ''SWZ'',
       names_de = ''Swasiland'', names_fr = ''Swaziland'',
       names_it = ''Swaziland'', names_en = ''Swaziland'' \<rparr>),
     (''TC'', \<lparr> data_bfs_code = ''8474'', data_iso3 = ''TCA'',
       names_de = ''Turks- und Caicosinseln'', names_fr = ([CHR 0xCE] @ ''les Turques et Ca'' @ [CHR 0xEF] @ ''ques''),
       names_it = ''Isole Turks e Caicos'', names_en = ''Turks and Caicos Islands'' \<rparr>),
     (''TD'', \<lparr> data_bfs_code = ''8356'', data_iso3 = ''TCD'',
       names_de = ''Tschad'', names_fr = ''Tchad'',
       names_it = ''Ciad'', names_en = ''Chad'' \<rparr>),
     (''TF'', \<lparr> data_bfs_code = ''8703'', data_iso3 = ''ATF'',
       names_de = (''Franz'' @ [CHR 0xF6] @ ''sische S'' @ [CHR 0xFC] @ ''d- und Antarktisgebiete''), names_fr = (''Terres australes et antarctiques fran'' @ [CHR 0xE7] @ ''aises''),
       names_it = ''Territori delle terre australi e antartiche francesi'', names_en = ''French Southern and Antarctic Lands'' \<rparr>),
     (''TG'', \<lparr> data_bfs_code = ''8354'', data_iso3 = ''TGO'',
       names_de = ''Togo'', names_fr = ''Togo'',
       names_it = ''Togo'', names_en = ''Togo'' \<rparr>),
     (''TH'', \<lparr> data_bfs_code = ''8542'', data_iso3 = ''THA'',
       names_de = ''Thailand'', names_fr = (''Tha'' @ [CHR 0xEF] @ ''lande''),
       names_it = ''Thailandia'', names_en = ''Thailand'' \<rparr>),
     (''TJ'', \<lparr> data_bfs_code = ''8565'', data_iso3 = ''TJK'',
       names_de = ''Tadschikistan'', names_fr = ''Tadjikistan'',
       names_it = ''Tagikistan'', names_en = ''Tajikistan'' \<rparr>),
     (''TK'', \<lparr> data_bfs_code = ''8684'', data_iso3 = ''TKL'',
       names_de = ''Tokelau'', names_fr = (''Tok'' @ [CHR 0xE9] @ ''lau''),
       names_it = ''Tokelau'', names_en = ''Tokelau'' \<rparr>),
     (''TL'', \<lparr> data_bfs_code = ''8547'', data_iso3 = ''TLS'',
       names_de = ''Timor-Leste'', names_fr = ''Timor-Leste'',
       names_it = ''Timor-Leste'', names_en = ''Timor-Leste'' \<rparr>),
     (''TM'', \<lparr> data_bfs_code = ''8566'', data_iso3 = ''TKM'',
       names_de = ''Turkmenistan'', names_fr = (''Turkm'' @ [CHR 0xE9] @ ''nistan''),
       names_it = ''Turkmenistan'', names_en = ''Turkmenistan'' \<rparr>),
     (''TN'', \<lparr> data_bfs_code = ''8357'', data_iso3 = ''TUN'',
       names_de = ''Tunesien'', names_fr = ''Tunisie'',
       names_it = ''Tunisia'', names_en = ''Tunisia'' \<rparr>),
     (''TO'', \<lparr> data_bfs_code = ''8610'', data_iso3 = ''TON'',
       names_de = ''Tonga'', names_fr = ''Tonga'',
       names_it = ''Tonga'', names_en = ''Tonga'' \<rparr>),
     (''TR'', \<lparr> data_bfs_code = ''8239'', data_iso3 = ''TUR'',
       names_de = (''T'' @ [CHR 0xFC] @ ''rkei''), names_fr = ''Turquie'',
       names_it = ''Turchia'', names_en = ''Turkey'' \<rparr>),
     (''TT'', \<lparr> data_bfs_code = ''8436'', data_iso3 = ''TTO'',
       names_de = ''Trinidad und Tobago'', names_fr = (''Trinit'' @ [CHR 0xE9] @ ''-et-Tobago''),
       names_it = ''Trinidad e Tobago'', names_en = ''Trinidad and Tobago'' \<rparr>),
     (''TV'', \<lparr> data_bfs_code = ''8615'', data_iso3 = ''TUV'',
       names_de = ''Tuvalu'', names_fr = ''Tuvalu'',
       names_it = ''Tuvalu'', names_en = ''Tuvalu'' \<rparr>),
     (''TW'', \<lparr> data_bfs_code = ''8507'', data_iso3 = ''TWN'',
       names_de = ''Taiwan (Chinesisches Taipei)'', names_fr = (''Ta'' @ [CHR 0xEF] @ ''wan (Taipei chinois)''),
       names_it = ''Taiwan (Taipei cinese)'', names_en = ''Taiwan (Chinese Taipei)'' \<rparr>),
     (''TZ'', \<lparr> data_bfs_code = ''8353'', data_iso3 = ''TZA'',
       names_de = ''Tansania'', names_fr = ''Tanzanie'',
       names_it = ''Tanzania'', names_en = ''Tanzania'' \<rparr>),
     (''UA'', \<lparr> data_bfs_code = ''8265'', data_iso3 = ''UKR'',
       names_de = ''Ukraine'', names_fr = ''Ukraine'',
       names_it = ''Ucraina'', names_en = ''Ukraine'' \<rparr>),
     (''UG'', \<lparr> data_bfs_code = ''8358'', data_iso3 = ''UGA'',
       names_de = ''Uganda'', names_fr = ''Ouganda'',
       names_it = ''Uganda'', names_en = ''Uganda'' \<rparr>),
     (''UM'', \<lparr> data_bfs_code = ''8636'', data_iso3 = ''UMI'',
       names_de = ''Wakeinsel'', names_fr = ([CHR 0xCE] @ ''le Wake''),
       names_it = ''Isola Wake'', names_en = ''Wake Island'' \<rparr>),
     (''US'', \<lparr> data_bfs_code = ''8439'', data_iso3 = ''USA'',
       names_de = ''Vereinigte Staaten'', names_fr = ([CHR 0xC9] @ ''tats-Unis''),
       names_it = ''Stati Uniti'', names_en = ''United States'' \<rparr>),
     (''UY'', \<lparr> data_bfs_code = ''8437'', data_iso3 = ''URY'',
       names_de = ''Uruguay'', names_fr = ''Uruguay'',
       names_it = ''Uruguay'', names_en = ''Uruguay'' \<rparr>),
     (''UZ'', \<lparr> data_bfs_code = ''8567'', data_iso3 = ''UZB'',
       names_de = ''Usbekistan'', names_fr = (''Ouzb'' @ [CHR 0xE9] @ ''kistan''),
       names_it = ''Uzbekistan'', names_en = ''Uzbekistan'' \<rparr>),
     (''VA'', \<lparr> data_bfs_code = ''8241'', data_iso3 = ''VAT'',
       names_de = ''Vatikanstadt'', names_fr = (''Cit'' @ [CHR 0xE9] @ '' du Vatican''),
       names_it = (''Citt'' @ [CHR 0xE0] @ '' del Vaticano''), names_en = ''Vatican City'' \<rparr>),
     (''VC'', \<lparr> data_bfs_code = ''8444'', data_iso3 = ''VCT'',
       names_de = ''St. Vincent und die Grenadinen'', names_fr = ''Saint-Vincent-et-les Grenadines'',
       names_it = ''Saint Vincent e Grenadine'', names_en = ''Saint Vincent and the Grenadines'' \<rparr>),
     (''VE'', \<lparr> data_bfs_code = ''8438'', data_iso3 = ''VEN'',
       names_de = ''Venezuela'', names_fr = ''Venezuela'',
       names_it = ''Venezuela'', names_en = ''Venezuela'' \<rparr>),
     (''VG'', \<lparr> data_bfs_code = ''8476'', data_iso3 = ''VGB'',
       names_de = ''Jungferninseln (UK)'', names_fr = ([CHR 0xCE] @ ''les Vierges britanniques''),
       names_it = ''Isole Vergini britanniche'', names_en = ''British Virgin Islands'' \<rparr>),
     (''VI'', \<lparr> data_bfs_code = ''8472'', data_iso3 = ''VIR'',
       names_de = ''Jungferninseln (USA)'', names_fr = ([CHR 0xCE] @ ''les Vierges am'' @ [CHR 0xE9] @ ''ricaines''),
       names_it = ''Isole Vergini americane'', names_en = ''US Virgin Islands'' \<rparr>),
     (''VN'', \<lparr> data_bfs_code = ''8545'', data_iso3 = ''VNM'',
       names_de = ''Vietnam'', names_fr = ''Vietnam'',
       names_it = ''Vietnam'', names_en = ''Vietnam'' \<rparr>),
     (''VU'', \<lparr> data_bfs_code = ''8605'', data_iso3 = ''VUT'',
       names_de = ''Vanuatu'', names_fr = ''Vanuatu'',
       names_it = ''Vanuatu'', names_en = ''Vanuatu'' \<rparr>),
     (''WF'', \<lparr> data_bfs_code = ''8611'', data_iso3 = ''WLF'',
       names_de = ''Wallis und Futuna'', names_fr = ''Wallis-et-Futuna'',
       names_it = ''Wallis e Futuna'', names_en = ''Wallis and Futuna'' \<rparr>),
     (''WS'', \<lparr> data_bfs_code = ''8612'', data_iso3 = ''WSM'',
       names_de = ''Samoa'', names_fr = ''Samoa'',
       names_it = ''Samoa'', names_en = ''Samoa'' \<rparr>),
     (''YE'', \<lparr> data_bfs_code = ''8516'', data_iso3 = ''YEM'',
       names_de = ''Jemen'', names_fr = (''Y'' @ [CHR 0xE9] @ ''men''),
       names_it = ''Yemen'', names_en = ''Yemen'' \<rparr>),
     (''YT'', \<lparr> data_bfs_code = ''8361'', data_iso3 = ''MYT'',
       names_de = ''Mayotte'', names_fr = ''Mayotte'',
       names_it = ''Mayotte'', names_en = ''Mayotte'' \<rparr>),
     (''ZA'', \<lparr> data_bfs_code = ''8349'', data_iso3 = ''ZAF'',
       names_de = (''S'' @ [CHR 0xFC] @ ''dafrika''), names_fr = ''Afrique du Sud'',
       names_it = ''Sudafrica'', names_en = ''South Africa'' \<rparr>),
     (''ZM'', \<lparr> data_bfs_code = ''8343'', data_iso3 = ''ZMB'',
       names_de = ''Sambia'', names_fr = ''Zambie'',
       names_it = ''Zambia'', names_en = ''Zambia'' \<rparr>),
     (''ZW'', \<lparr> data_bfs_code = ''8340'', data_iso3 = ''ZWE'',
       names_de = ''Simbabwe'', names_fr = ''Zimbabwe'',
       names_it = ''Zimbabwe'', names_en = ''Zimbabwe'' \<rparr>)]"

section \<open>countries.py\<close>

record Country =
  iso2 :: string
  bfs_code :: string
  iso3 :: string
  name_de :: string
  name_fr :: string
  name_it :: string
  name_en :: string

text \<open>\<open>names.get(language, self.name_de)\<close>.\<close>

definition get_name :: "Country \<Rightarrow> string \<Rightarrow> string" where
  "get_name self lang =
     (case map_of [(''de'', name_de self), (''fr'', name_fr self),
                   (''it'', name_it self), (''en'', name_en self)] lang of
        Some n \<Rightarrow> n
      | None \<Rightarrow> name_de self)"

text \<open>\<open>get_country\<close>. Every value of the table is a dict of three items and so is true
  in \<open>if data\<close>.\<close>

definition get_country :: "string \<Rightarrow> Country option" where
  "get_country iso_code =
     (case map_of COUNTRY_CODES (upper iso_code) of
        Some data \<Rightarrow>
          Some \<lparr> iso2 = upper iso_code, bfs_code = data_bfs_code data, iso3 = data_iso3 data,
                 name_de = names_de data, name_fr = names_fr data,
                 name_it = names_it data, name_en = names_en data \<rparr>
      | None \<Rightarrow> None)"

text \<open>\<open>get_all_countries\<close>: the keys in sorted order, each looked up with
  \<open>get_country\<close>, the misses dropped.\<close>

definition get_all_countries :: "Country list" where
  "get_all_countries = List.map_filter get_country (sort (map fst COUNTRY_CODES))"

definition search_countries :: "string \<Rightarrow> string \<Rightarrow> Country list" where
  "search_countries query lang =
     (let query_lower = lower query
      in filter (\<lambda>country. str_contains query_lower (lower (get_name country lang)))
           get_all_countries)"

section \<open>importers/base.py\<close>

text \<open>
  What the importer sees of its environment: the text files on disk by path and the lines
  printed so far (\<open>disk\<close>); the project root; the workbook reader of \<open>openpyxl\<close>, which
  turns the bytes of a workbook into its sheets (name and rows of cell values) or raises;
  the JSON reader, which turns \<open>metadata.json\<close> into a dict of dicts of strings or raises;
  and the clock, \<open>now n\<close> being \<open>datetime.now().isoformat()\<close> at its \<open>n\<close>-th reading.
  A cell holds nothing, a text or a whole number. Directories are not modelled: creating
  them and writing into them succeeds.
\<close>

datatype cell = Empty | Text string | Number int

record disk =
  contents :: "string \<rightharpoonup> string"
  stdout :: "string list"

record importer_env =
  project_root :: string
  load_workbook :: "string \<Rightarrow> py_error + (string \<times> cell list list) list"
  json_load :: "string \<Rightarrow> py_error + (string \<times> (string \<times> string) list) list"
  now :: "nat \<Rightarrow> string"

definition sources_dir :: "importer_env \<Rightarrow> string" where
  "sources_dir env = project_root env @ ''/sources''"

definition generated_dir :: "importer_env \<Rightarrow> string" where
  "generated_dir env = project_root env @ ''/generated''"

definition exists :: "disk \<Rightarrow> string \<Rightarrow> bool" where
  "exists fs path = (contents fs path \<noteq> None)"

definition print :: "string \<Rightarrow> disk \<Rightarrow> disk" where
  "print line fs = fs\<lparr>stdout := stdout fs @ [line]\<rparr>"

definition write_text :: "string \<Rightarrow> string \<Rightarrow> disk \<Rightarrow> disk" where
  "write_text path text fs = fs\<lparr>contents := (contents fs)(path \<mapsto> text)\<rparr>"

text \<open>\<open>dict.get(key, default)\<close> on a dict kept as the list of its items.\<close>

definition dict_get :: "('k \<times> 'v) list \<Rightarrow> 'k \<Rightarrow> 'v \<Rightarrow> 'v" where
  "dict_get d key dflt = (case map_of d key of Some v \<Rightarrow> v | None \<Rightarrow> dflt)"

definition read_metadata ::
  "importer_env \<Rightarrow> string \<Rightarrow> disk \<Rightarrow> py_error + (string \<times> (string \<times> string) list) list" where
  "read_metadata env source_type fs =
     (case contents fs (sources_dir env @ ''/'' @ source_type @ ''/metadata.json'') of
        Some text \<Rightarrow> json_load env text
      | None \<Rightarrow> Inr [])"

definition write_version_file ::
  "string \<Rightarrow> string \<Rightarrow> string \<Rightarrow> (string \<times> string) list \<Rightarrow> disk \<Rightarrow> disk" where
  "write_version_file generated output_dir source_file metadata fs =
     write_text (output_dir @ ''/VERSION'')
       (''Generated: '' @ generated @ ''\<newline>'' @
        ''Source: '' @ source_file @ ''\<newline>'' @
        (if metadata \<noteq> []
         then ''Source Version: '' @ dict_get metadata ''version'' ''unknown'' @ ''\<newline>'' @
              ''Downloaded: '' @ dict_get metadata ''downloaded'' ''unknown'' @ ''\<newline>''
         else []))
       fs"

definition ensure_init_files :: "string \<Rightarrow> disk \<Rightarrow> disk" where
  "ensure_init_files dir_path fs =
     (if \<not> exists fs (dir_path @ ''/__init__.py'')
      then write_text (dir_path @ ''/__init__.py'')
             ([CHR 0x22, CHR 0x22, CHR 0x22] @ ''Auto-generated data.'' @
              [CHR 0x22, CHR 0x22, CHR 0x22] @ ''\<newline>'') fs
      else fs)"

definition generate_python_header ::
  "string \<Rightarrow> string \<Rightarrow> string \<Rightarrow> string \<Rightarrow> string \<Rightarrow> string \<Rightarrow> string \<Rightarrow> string" where
  "generate_python_header generated source_file description data_provider data_url data_year
      importer_script =
     concat
       [[CHR 0x22], [CHR 0x22], [CHR 0x22], ''Auto-generated from BFS data.\<newline>'',
        ''\<newline>'', ''DO NOT EDIT MANUALLY!\<newline>'', ''\<newline>'', ''Generated: '',
        generated, ''\<newline>'', ''Source: '', source_file, ''\<newline>'', ''Description: '',
        description, ''\<newline>'', ''\<newline>'', ''DATA SOURCE ATTRIBUTION:\<newline>'',
        ''    Data Provider: '', data_provider, ''\<newline>'', ''    Dataset: '', description,
        ''\<newline>'', ''    Terms of Use: Open Government Data (OGD) Switzerland - '',
        [CHR 0x22], ''Open use. Must provide the source.'', [CHR 0x22], ''\<newline>'',
        ''    URL: '', data_url, ''\<newline>'', ''    Copyright: '', [CHR 0xA9], '' '',
        data_year, '' '', data_provider, ''\<newline>'', ''\<newline>'',
        ''    This data is made available under Swiss OGD terms, which require source attribution.\<newline>'',
        ''    See DATA_SOURCES.md in the repository root for complete licensing information.\<newline>'',
        ''\<newline>'', ''CODE LICENSE:\<newline>'', ''    This Python code structure is '',
        [CHR 0xA9], '' 2025 OpenMun Project, licensed under MIT License.\<newline>'',
        ''    The data content is '', [CHR 0xA9], '' '', data_provider,
        '', used under OGD terms.\<newline>'', ''\<newline>'', ''Run importers/'',
        importer_script, '' to regenerate.\<newline>'', [CHR 0x22], [CHR 0x22], [CHR 0x22],
        ''\<newline>'', ''\<newline>'']"

section \<open>importers/bfs\_country\_importer.py\<close>

definition generate_helper_functions :: string where
  "generate_helper_functions =
     concat
       [''# Type hints\<newline>'', ''from typing import Optional, Dict, Any\<newline>'',
        ''\<newline>'', ''# Helper functions\<newline>'',
        ''def get_bfs_country_code(iso_code: str) -> Optional[str]:\<newline>'', ''    '',
        [CHR 0x22], [CHR 0x22], [CHR 0x22],
        ''Get BFS country code from ISO 2-letter code.\<newline>'', ''\<newline>'',
        ''    Args:\<newline>'', ''        iso_code: ISO 3166-1 alpha-2 country code (e.g., '',
        [CHR 0x27], ''CH'', [CHR 0x27], '', '', [CHR 0x27], ''DE'', [CHR 0x27], '')\<newline>'',
        ''\<newline>'', ''    Returns:\<newline>'',
        ''        BFS country code or None if not found\<newline>'', ''    '', [CHR 0x22],
        [CHR 0x22], [CHR 0x22], ''\<newline>'',
        ''    country = COUNTRY_CODES.get(iso_code.upper())\<newline>'', ''    return country['',
        [CHR 0x27], ''bfs_code'', [CHR 0x27], ''] if country else None\<newline>'',
        ''\<newline>'', ''\<newline>'', ''def get_country_name(iso_code: str, language: str = '',
        [CHR 0x27], ''de'', [CHR 0x27], '') -> Optional[str]:\<newline>'', ''    '', [CHR 0x22],
        [CHR 0x22], [CHR 0x22], ''Get country name in specified language.\<newline>'',
        ''\<newline>'', ''    Args:\<newline>'',
        ''        iso_code: ISO 3166-1 alpha-2 country code\<newline>'',
        ''        language: Language code ('', [CHR 0x27], ''de'', [CHR 0x27], '', '',
        [CHR 0x27], ''fr'', [CHR 0x27], '', '', [CHR 0x27], ''it'', [CHR 0x27], '', '',
        [CHR 0x27], ''en'', [CHR 0x27], '')\<newline>'', ''\<newline>'',
        ''    Returns:\<newline>'', ''        Country name or None if not found\<newline>'',
        ''    '', [CHR 0x22], [CHR 0x22], [CHR 0x22], ''\<newline>'',
        ''    country = COUNTRY_CODES.get(iso_code.upper())\<newline>'',
        ''    if country and language in country['', [CHR 0x27], ''names'', [CHR 0x27],
        '']:\<newline>'', ''        return country['', [CHR 0x27], ''names'', [CHR 0x27],
        ''][language]\<newline>'', ''    return None\<newline>'', ''\<newline>'', ''\<newline>'',
        ''def get_country_by_bfs_code(bfs_code: str) -> Optional[Dict[str, Any]]:\<newline>'',
        ''    '', [CHR 0x22], [CHR 0x22], [CHR 0x22],
        ''Get country data by BFS code.\<newline>'', ''\<newline>'', ''    Args:\<newline>'',
        ''        bfs_code: BFS country code (e.g., '', [CHR 0x27], ''8207'', [CHR 0x27],
        '' for Switzerland)\<newline>'', ''\<newline>'', ''    Returns:\<newline>'',
        ''        Country data dict or None if not found\<newline>'', ''    '', [CHR 0x22],
        [CHR 0x22], [CHR 0x22], ''\<newline>'', ''    bfs_str = str(bfs_code)\<newline>'',
        ''    for iso_code, data in COUNTRY_CODES.items():\<newline>'', ''        if data['',
        [CHR 0x27], ''bfs_code'', [CHR 0x27], ''] == bfs_str:\<newline>'',
        ''            return {'', [CHR 0x27], ''iso2'', [CHR 0x27],
        '': iso_code, **data}\<newline>'', ''    return None\<newline>'']"

text \<open>Decimal digits of a number, as \<open>str\<close> and f-strings print it.\<close>

function decimal :: "nat \<Rightarrow> string" where
  "decimal n = (if n < 10 then [char_of (48 + n)] else decimal (n div 10) @ [char_of (48 + n mod 10)])"
  by pat_completeness auto
termination
  by (relation "measure id") auto

declare decimal.simps [simp del]

definition str_of_int :: "int \<Rightarrow> string" where
  "str_of_int i = (if i < 0 then ''-'' @ decimal (nat (- i)) else decimal (nat i))"

text \<open>Truth value and \<open>str\<close> of a cell value.\<close>

definition cell_true :: "cell \<Rightarrow> bool" where
  "cell_true c = (case c of Empty \<Rightarrow> False | Text s \<Rightarrow> s \<noteq> [] | Number i \<Rightarrow> i \<noteq> 0)"

definition cell_str :: "cell \<Rightarrow> string" where
  "cell_str c = (case c of Empty \<Rightarrow> ''None'' | Text s \<Rightarrow> s | Number i \<Rightarrow> str_of_int i)"

text \<open>\<open>x if x else ''\<close>.\<close>

definition or_empty :: "cell \<Rightarrow> cell" where
  "or_empty c = (if cell_true c then c else Text [])"

text \<open>One value of the \<open>countries\<close> dict built from the sheet.\<close>

record parsed_country =
  p_bfs_code :: string
  p_iso3 :: cell
  p_names :: "(string \<times> cell) list"

text \<open>\<open>d[key] = value\<close> on a dict kept as the list of its items: a key that is there
  keeps its place.\<close>

definition dict_set :: "('k \<times> 'v) list \<Rightarrow> 'k \<Rightarrow> 'v \<Rightarrow> ('k \<times> 'v) list" where
  "dict_set d key v =
     (if key \<in> fst ` set d then map (\<lambda>(k, w). if k = key then (k, v) else (k, w)) d
      else d @ [(key, v)])"

text \<open>The loop over the data rows of the sheet (the header row is already dropped). A
  row shorter than 23 cells raises \<open>IndexError\<close>.\<close>

fun parse_rows ::
  "cell list list \<Rightarrow> (cell \<times> parsed_country) list \<Rightarrow> py_error + (cell \<times> parsed_country) list" where
  "parse_rows [] countries = Inr countries"
| "parse_rows (row # rows) countries =
     (if length row \<le> 22 then Inl IndexError
      else if row ! 22 = Text ''J'' \<and> cell_true (row ! 0) \<and> cell_true (row ! 2)
      then parse_rows rows
             (dict_set countries (row ! 2)
                \<lparr> p_bfs_code = cell_str (row ! 0), p_iso3 = or_empty (row ! 3),
                  p_names = [(''de'', or_empty (row ! 4)), (''fr'', or_empty (row ! 5)),
                             (''it'', or_empty (row ! 6)), (''en'', or_empty (row ! 7))] \<rparr>)
      else parse_rows rows countries)"

text \<open>\<open>sorted(countries.keys())\<close>: texts sort as strings, numbers as numbers, and a mix
  of both raises \<open>TypeError\<close>.\<close>

definition the_text :: "cell \<Rightarrow> string" where
  "the_text c = (case c of Text s \<Rightarrow> s | _ \<Rightarrow> [])"

definition the_number :: "cell \<Rightarrow> int" where
  "the_number c = (case c of Number i \<Rightarrow> i | _ \<Rightarrow> 0)"

definition is_text :: "cell \<Rightarrow> bool" where
  "is_text c = (case c of Text s \<Rightarrow> True | _ \<Rightarrow> False)"

definition sorted_keys :: "cell list \<Rightarrow> py_error + cell list" where
  "sorted_keys keys =
     (if list_all is_text keys then Inr (map Text (sort (map the_text keys)))
      else if list_all (\<lambda>c. \<not> is_text c) keys then Inr (map Number (sort (map the_number keys)))
      else Inl TypeError)"

text \<open>\<open>name.replace("'", "\\'")\<close>.\<close>

definition escape_quotes :: "string \<Rightarrow> string" where
  "escape_quotes s = concat (map (\<lambda>c. if c = CHR 0x27 then [CHR 0x5C, CHR 0x27] else [c]) s)"

text \<open>What the loops inside \<open>with open(output_file, 'w')\<close> write: the text written, and
  the exception that ended the writing, if any. A name that is no text has no
  \<open>replace\<close> and raises \<open>AttributeError\<close>.\<close>

fun write_names :: "(string \<times> cell) list \<Rightarrow> string \<times> py_error option" where
  "write_names [] = ([], None)"
| "write_names ((lang, nm) # rest) =
     (case nm of
        Text s \<Rightarrow>
          (case write_names rest of
             (text, e) \<Rightarrow>
               (''            '' @ [CHR 0x27] @ lang @ [CHR 0x27] @ '': '' @ [CHR 0x27] @
                escape_quotes s @ [CHR 0x27] @ '',\<newline>'' @ text, e))
      | _ \<Rightarrow> ([], Some AttributeError))"

fun write_countries ::
  "(cell \<times> parsed_country) list \<Rightarrow> cell list \<Rightarrow> string \<times> py_error option" where
  "write_countries countries [] = ([], None)"
| "write_countries countries (key # rest) =
     (case map_of countries key of
        None \<Rightarrow> ([], Some (OtherError ''KeyError''))
      | Some data \<Rightarrow>
          (let start =
                 ''    '' @ [CHR 0x27] @ cell_str key @ [CHR 0x27] @ '': {\<newline>'' @
                 ''        '' @ [CHR 0x27] @ ''bfs_code'' @ [CHR 0x27] @ '': '' @ [CHR 0x27] @
                   p_bfs_code data @ [CHR 0x27] @ '',\<newline>'' @
                 ''        '' @ [CHR 0x27] @ ''iso3'' @ [CHR 0x27] @ '': '' @ [CHR 0x27] @
                   cell_str (p_iso3 data) @ [CHR 0x27] @ '',\<newline>'' @
                 ''        '' @ [CHR 0x27] @ ''names'' @ [CHR 0x27] @ '': {\<newline>''
           in case write_names (p_names data) of
                (names, Some e) \<Rightarrow> (start @ names, Some e)
              | (names, None) \<Rightarrow>
                  (case write_countries countries rest of
                     (text, e) \<Rightarrow>
                       (start @ names @ ''        }\<newline>'' @ ''    },\<newline>'' @ text, e))))"

text \<open>The repr of a list of plain strings, as \<open>{wb.sheetnames}\<close> prints it.\<close>

fun join_reprs :: "string list \<Rightarrow> string" where
  "join_reprs [] = []"
| "join_reprs [s] = [CHR 0x27] @ s @ [CHR 0x27]"
| "join_reprs (s # t # ss) = [CHR 0x27] @ s @ [CHR 0x27] @ '', '' @ join_reprs (t # ss)"

definition source_file :: string where
  "source_file = ''be-b-00.04-sg-01.xlsx''"

definition excel_path :: "importer_env \<Rightarrow> string" where
  "excel_path env = sources_dir env @ ''/bfs/'' @ source_file"

definition output_dir :: "importer_env \<Rightarrow> string" where
  "output_dir env = generated_dir env @ ''/bfs''"

definition output_file :: "importer_env \<Rightarrow> string" where
  "output_file env = output_dir env @ ''/country_codes.py''"

text \<open>The body of \<open>with open(output_file, 'w') as f\<close>: the text that the file holds when
  the block is left, and the exception that left it, if any.\<close>

definition generate_module ::
  "importer_env \<Rightarrow> (string \<times> string) list \<Rightarrow> (cell \<times> parsed_country) list \<Rightarrow>
   string \<times> py_error option" where
  "generate_module env file_metadata countries =
     (let head =
            generate_python_header (now env 0) source_file
              (dict_get file_metadata ''description'' ''BFS country codes'')
              ''Swiss Federal Statistical Office (BFS)'' ''https://www.bfs.admin.ch/'' ''2024''
              ''bfs_country_importer.py'' @
            ''# ISO 3166-1 alpha-2 codes mapped to BFS codes and names\<newline>'' @
            ''COUNTRY_CODES = {\<newline>''
      in case sorted_keys (map fst countries) of
           Inl e \<Rightarrow> (head, Some e)
         | Inr keys \<Rightarrow>
             (case write_countries countries keys of
                (text, Some e) \<Rightarrow> (head @ text, Some e)
              | (text, None) \<Rightarrow>
                  (head @ text @ ''}\<newline>\<newline>'' @ generate_helper_functions, None)))"

text \<open>\<open>BFSCountryImporter.import_country_codes\<close>: the value returned or the exception
  raised, and the disk as the call leaves it.\<close>

definition import_country_codes ::
  "importer_env \<Rightarrow> bool \<Rightarrow> disk \<Rightarrow> (py_error + bool) \<times> disk" where
  "import_country_codes env force fs =
     (if \<not> force \<and> exists fs (output_file env) then
        (Inr True,
         print ''Use --force to regenerate''
           (print (''Output already exists: '' @ output_file env) fs))
      else if \<not> exists fs (excel_path env) then
        (Inr False, print (''ERROR: Source file not found: '' @ excel_path env) fs)
      else
        (case read_metadata env ''bfs'' fs of
           Inl e \<Rightarrow> (Inl e, fs)
         | Inr metadata \<Rightarrow>
             (let file_metadata = dict_get metadata source_file [];
                  fs1 = print (''Reading '' @ excel_path env @ ''...'') fs
              in case load_workbook env (the (contents fs (excel_path env))) of
                   Inl e \<Rightarrow> (Inl e, fs1)
                 | Inr sheets \<Rightarrow>
                     (case map_of sheets ''Stat_Geb'' of
                        None \<Rightarrow>
                          (Inr False,
                           print (''ERROR: Sheet '' @ [CHR 0x27] @ ''Stat_Geb'' @ [CHR 0x27] @
                                  '' not found. Available sheets: ['' @
                                  join_reprs (map fst sheets) @ '']'') fs1)
                      | Some ws \<Rightarrow>
                          (case parse_rows (tl ws) [] of
                             Inl e \<Rightarrow> (Inl e, fs1)
                           | Inr countries \<Rightarrow>
                               (let n = decimal (length countries);
                                    fs2 = print (''Parsed '' @ n @ '' valid countries'') fs1;
                                    fs3 = ensure_init_files (output_dir env) fs2;
                                    fs4 = print (''Writing '' @ output_file env @ ''...'') fs3
                                in case generate_module env file_metadata countries of
                                     (text, Some e) \<Rightarrow>
                                       (Inl e, write_text (output_file env) text fs4)
                                   | (text, None) \<Rightarrow>
                                       (Inr True,
                                        print (''Successfully generated '' @ n @
                                               '' country codes'')
                                          (write_version_file (now env 1) (output_dir env)
                                             source_file file_metadata
                                             (write_text (output_file env) text fs4)))))))))"

section \<open>Example run of the importer\<close>

text \<open>A workbook with the header row and the row of Switzerland, no metadata file, and a
  disk that holds the workbook only.\<close>

definition example_env :: importer_env where
  "example_env =
     \<lparr> project_root = ''/repo'',
       load_workbook = (\<lambda>bytes. Inr [(''Stat_Geb'',
          [replicate 23 (Text ''header''),
           [Number 8100, Empty, Text ''CH'', Text ''CHE'', Text ''Schweiz'', Text ''Suisse'',
            Text ''Svizzera'', Text ''Switzerland''] @ replicate 14 Empty @ [Text ''J'']])]),
       json_load = (\<lambda>text. Inr []),
       now = (\<lambda>n. ''2025-10-27T15:50:57'') \<rparr>"

definition example_disk :: disk where
  "example_disk =
     \<lparr> contents = [''/repo/sources/bfs/be-b-00.04-sg-01.xlsx'' \<mapsto> ''xlsx''], stdout = [] \<rparr>"

section \<open>Properties of the postal locality record\<close>

text \<open>
  Claim C5. For every postal locality record: when \<open>additional_digit\<close> is \<open>00\<close>,
  \<open>full_postal_code\<close> is exactly \<open>postal_code\<close>; when it is any other two-digit
  value, \<open>full_postal_code\<close> is \<open>postal_code\<close>, a hyphen and that value.
\<close>

theorem full_postal_code_cases:
  "(additional_digit r = ''00'' \<longrightarrow> full_postal_code r = postal_code r) \<and>
   (digits_n 2 (additional_digit r) \<and> additional_digit r \<noteq> ''00'' \<longrightarrow>
      full_postal_code r = postal_code r @ ''-'' @ additional_digit r)"
  by (auto simp: full_postal_code_def digits_n_def)

theorem full_postal_code_cases_witness:
  "full_postal_code \<lparr> locality_name = ''Z'', postal_code = ''8001'', additional_digit = ''00'',
      municipality_name = ''Z'', bfs_number = 261, canton_code = ''ZH'', easting = 2683141,
      northing = 1247935, language = ''de'', validity_date = ''2008-07-01'' \<rparr> = ''8001'' \<and>
   digits_n 2 ''02'' \<and>
   full_postal_code \<lparr> locality_name = ''Z'', postal_code = ''8001'', additional_digit = ''02'',
      municipality_name = ''Z'', bfs_number = 261, canton_code = ''ZH'', easting = 2683141,
      northing = 1247935, language = ''de'', validity_date = ''2008-07-01'' \<rparr> = ''8001-02''"
proof -
  have d: "digits_n 2 ''02''"
    by code_simp
  show ?thesis
    using d
      full_postal_code_cases [of "\<lparr> locality_name = ''Z'', postal_code = ''8001'',
        additional_digit = ''00'', municipality_name = ''Z'', bfs_number = 261,
        canton_code = ''ZH'', easting = 2683141, northing = 1247935, language = ''de'',
        validity_date = ''2008-07-01'' \<rparr>"]
      full_postal_code_cases [of "\<lparr> locality_name = ''Z'', postal_code = ''8001'',
        additional_digit = ''02'', municipality_name = ''Z'', bfs_number = 261,
        canton_code = ''ZH'', easting = 2683141, northing = 1247935, language = ''de'',
        validity_date = ''2008-07-01'' \<rparr>"]
    by simp
qed

lemma upper_char_letter:
  assumes "is_ascii_letter c"
  shows "\<exists>d. upper_char c = [d] \<and> is_upper_AZ d \<and> \<not> is_space d"
proof -
  let ?n = "code_point c"
  have lt: "?n < 256" by (simp add: code_point_def)
  show ?thesis
  proof (cases "97 \<le> ?n \<and> ?n \<le> 122")
    case True
    then have "upper_char c = [char_of (?n - 32)]"
      by (simp add: upper_char_def Let_def)
    moreover have "?n - 32 < 256"
      using lt by (rule less_imp_diff_less)
    then have "code_point (char_of (?n - 32)) = ?n - 32"
      by (simp add: code_point_def)
    ultimately show ?thesis using True
      by (auto simp: is_upper_AZ_def is_space_def Let_def)
  next
    case False
    then have "65 \<le> ?n \<and> ?n \<le> 90"
      using assms by (auto simp: is_ascii_letter_def Let_def)
    then show ?thesis
      by (simp add: upper_char_def Let_def is_upper_AZ_def is_space_def)
  qed
qed

lemma upper_two_letters:
  assumes "length v = 2" "list_all is_ascii_letter v"
  shows "\<exists>a b. upper v = [a, b] \<and> is_upper_AZ a \<and> is_upper_AZ b \<and> \<not> is_space a \<and> \<not> is_space b"
proof -
  from assms obtain x y where v: "v = [x, y]"
    by (cases v; simp; case_tac list; simp)
  with assms have "is_ascii_letter x" "is_ascii_letter y" by simp_all
  then obtain a b where "upper_char x = [a]" "is_upper_AZ a" "\<not> is_space a"
     "upper_char y = [b]" "is_upper_AZ b" "\<not> is_space b"
    using upper_char_letter by blast
  then show ?thesis by (simp add: v upper_def)
qed

lemma letter_not_space: "is_ascii_letter c \<Longrightarrow> \<not> is_space c"
  by (auto simp: is_ascii_letter_def is_space_def Let_def)

lemma uppercase_canton_code_two_letters:
  assumes "length v = 2" "list_all is_ascii_letter v"
  shows "uppercase_canton_code v = upper v \<and> trim (upper v) = upper v \<and>
    canton_pattern (upper v)"
proof -
  from assms obtain x y where v: "v = [x, y]"
    by (cases v; simp; case_tac list; simp)
  with assms have "\<not> is_space x" "\<not> is_space y" by (simp_all add: letter_not_space)
  then have sv: "strip v = v" by (simp add: strip_def v)
  obtain a b where u: "upper v = [a, b]" "is_upper_AZ a" "is_upper_AZ b" "\<not> is_space a" "\<not> is_space b"
    using upper_two_letters [OF assms] by blast
  then have sab: "strip [a, b] = [a, b]" by (simp add: strip_def)
  then have su: "strip (upper v) = upper v" by (simp add: u)
  have "\<not> is_white_space a" "\<not> is_white_space b"
    using u(2,3) by (auto simp: is_upper_AZ_def is_white_space_def Let_def)
  then have tab: "trim [a, b] = [a, b]" by (simp add: trim_def)
  have "v \<noteq> []" by (simp add: v)
  then have "uppercase_canton_code v = upper v"
    by (simp add: uppercase_canton_code_def sv su)
  then show ?thesis
    using u by (simp add: tab canton_pattern_def)
qed

lemma upper_char_AZ: "is_upper_AZ c \<Longrightarrow> upper_char c = [c]"
  by (auto simp: is_upper_AZ_def upper_char_def Let_def)

lemma upper_AZ_letter: "is_upper_AZ c \<Longrightarrow> is_ascii_letter c"
  by (simp add: is_upper_AZ_def is_ascii_letter_def Let_def)

text \<open>
  Claim C9. Constructing a postal locality with a two-letter canton code in lower or
  mixed case succeeds whenever the other arguments satisfy their field constraints, and
  the record stores the code in capitals: the \<open>before\<close> validator capitalises it before
  the pattern is checked. Whatever the other arguments are, the result is the one for
  the capitalised code, and the canton code is never among the rejected fields.
\<close>

theorem canton_code_lowercase_accepted:
  assumes "length v = 2" and "list_all is_ascii_letter v"
  shows "list_all is_upper_AZ (upper v) \<and>
    (1 \<le> length (trim lnm) \<and> length (trim lnm) \<le> 100 \<and> digits_n 4 (trim pc) \<and>
     (case ad of None \<Rightarrow> True | Some d \<Rightarrow> digits_n 2 (trim d)) \<and>
     1 \<le> length (trim mn) \<and> length (trim mn) \<le> 100 \<and> 1 \<le> bn \<and> bn \<le> 9999 \<and>
     2485000 \<le> e \<and> e \<le> 2834000 \<and> 1075000 \<le> n \<and> n \<le> 1296000 \<and>
     language_pattern (trim lg) \<and> validity_date_pattern (trim vd) \<longrightarrow>
     PostalLocalityV1_init lnm pc ad mn bn v e n lg vd =
       Inr \<lparr> locality_name = trim lnm, postal_code = trim pc,
             additional_digit = (case ad of None \<Rightarrow> ''00'' | Some d \<Rightarrow> trim d),
             municipality_name = trim mn, bfs_number = bn, canton_code = upper v,
             easting = e, northing = n, language = trim lg, validity_date = trim vd \<rparr>) \<and>
    PostalLocalityV1_init lnm pc ad mn bn v e n lg vd =
      PostalLocalityV1_init lnm pc ad mn bn (upper v) e n lg vd \<and>
    (\<forall>r. PostalLocalityV1_init lnm pc ad mn bn v e n lg vd = Inr r \<longrightarrow>
        PostalLocalityV1.canton_code r = upper v) \<and>
    (\<forall>errs. PostalLocalityV1_init lnm pc ad mn bn v e n lg vd = Inl errs \<longrightarrow>
        ''canton_code'' \<notin> set errs)"
proof -
  obtain a b where u: "upper v = [a, b]" "is_upper_AZ a" "is_upper_AZ b"
    using upper_two_letters [OF assms] by blast
  have cc: "trim (uppercase_canton_code v) = upper v" and pat: "canton_pattern (upper v)"
    using uppercase_canton_code_two_letters [OF assms] by simp_all
  have uu: "upper (upper v) = upper v"
    using u by (simp add: upper_def upper_char_AZ)
  have "length (upper v) = 2" "list_all is_ascii_letter (upper v)"
    using u by (simp_all add: upper_AZ_letter)
  then have cc': "trim (uppercase_canton_code (upper v)) = upper v"
    using uppercase_canton_code_two_letters [of "upper v"] uu by simp
  have all: "list_all is_upper_AZ (upper v)"
    using u by simp
  have ok: "1 \<le> length (trim lnm) \<and> length (trim lnm) \<le> 100 \<and> digits_n 4 (trim pc) \<and>
     (case ad of None \<Rightarrow> True | Some d \<Rightarrow> digits_n 2 (trim d)) \<and>
     1 \<le> length (trim mn) \<and> length (trim mn) \<le> 100 \<and> 1 \<le> bn \<and> bn \<le> 9999 \<and>
     2485000 \<le> e \<and> e \<le> 2834000 \<and> 1075000 \<le> n \<and> n \<le> 1296000 \<and>
     language_pattern (trim lg) \<and> validity_date_pattern (trim vd) \<longrightarrow>
     PostalLocalityV1_init lnm pc ad mn bn v e n lg vd =
       Inr \<lparr> locality_name = trim lnm, postal_code = trim pc,
             additional_digit = (case ad of None \<Rightarrow> ''00'' | Some d \<Rightarrow> trim d),
             municipality_name = trim mn, bfs_number = bn, canton_code = upper v,
             easting = e, northing = n, language = trim lg, validity_date = trim vd \<rparr>"
    by (cases ad) (simp_all add: PostalLocalityV1_init_def cc pat check_def)
  have same: "PostalLocalityV1_init lnm pc ad mn bn v e n lg vd =
      PostalLocalityV1_init lnm pc ad mn bn (upper v) e n lg vd"
    by (simp add: PostalLocalityV1_init_def cc cc')
  have stored: "\<forall>r. PostalLocalityV1_init lnm pc ad mn bn v e n lg vd = Inr r \<longrightarrow>
        PostalLocalityV1.canton_code r = upper v"
    by (auto simp: PostalLocalityV1_init_def cc Let_def split: if_splits)
  have noerr: "\<forall>errs. PostalLocalityV1_init lnm pc ad mn bn v e n lg vd = Inl errs \<longrightarrow>
        ''canton_code'' \<notin> set errs"
    by (auto simp: PostalLocalityV1_init_def cc pat Let_def check_def split: if_splits)
  from all ok same stored noerr show ?thesis by blast
qed

theorem canton_code_lowercase_accepted_witness:
  "length ''zh'' = 2 \<and> list_all is_ascii_letter ''zh'' \<and>
   PostalLocalityV1_init ''Zurich'' ''8001'' (Some ''00'') ''Zurich'' 261 ''zh'' 2683141 1247935
       ''de'' ''2008-07-01'' =
     Inr \<lparr> locality_name = ''Zurich'', postal_code = ''8001'', additional_digit = ''00'',
           municipality_name = ''Zurich'', bfs_number = 261, canton_code = ''ZH'',
           easting = 2683141, northing = 1247935, language = ''de'',
           validity_date = ''2008-07-01'' \<rparr>"
proof -
  have l: "length ''zh'' = 2" by simp
  have a: "list_all is_ascii_letter ''zh''" by code_simp
  have up: "upper ''zh'' = ''ZH''" by code_simp
  have t: "trim ''Zurich'' = ''Zurich''" "trim ''8001'' = ''8001''" "trim ''00'' = ''00''"
    "trim ''de'' = ''de''" "trim ''2008-07-01'' = ''2008-07-01''"
    by code_simp+
  have f: "digits_n 4 ''8001''" "digits_n 2 ''00''" "language_pattern ''de''"
    "validity_date_pattern ''2008-07-01''"
    by code_simp+
  show ?thesis
    using canton_code_lowercase_accepted [OF l a, of "''Zurich''" "''8001''" "Some ''00''"
        "''Zurich''" 261 2683141 1247935 "''de''" "''2008-07-01''", THEN conjunct2,
        THEN conjunct1] l a f
    by (simp add: up t)
qed

section \<open>Properties of fetch-or-fallback\<close>








section \<open>Properties of canton enrichment\<close>

lemma parent_of_SomeD:
  "parent_of d m = Some p \<Longrightarrow> truthy (parent m) \<and> d (the (parent m)) = Some p"
  by (auto simp: parent_of_def truthy_def split: option.splits if_splits)

lemma parent_of_NoneD:
  "parent_of d m = None \<Longrightarrow> \<not> truthy (parent m) \<or> d (the (parent m)) = None"
  by (auto simp: parent_of_def truthy_def split: option.splits if_splits)

lemma walk_up_step:
  "parent_of d m = Some p \<Longrightarrow> depth < max_depth \<Longrightarrow>
   walk_up d m depth =
     (if level p = Some 1 then (short_name p, Some (name p)) else walk_up d p (depth + 1))"
  by (subst walk_up.simps) (auto dest: parent_of_SomeD)

lemma walk_up_stop:
  "parent_of d m = None \<or> \<not> depth < max_depth \<Longrightarrow> walk_up d m depth = (None, None)"
  by (subst walk_up.simps) (auto dest: parent_of_NoneD)

lemma list_all_upt: "list_all P [a..<b] = (\<forall>j. a \<le> j \<and> j < b \<longrightarrow> P j)"
  by (auto simp: list_all_iff)

lemma ancestor_Suc_parent:
  "parent_of d m = Some p \<Longrightarrow> ancestor d m (Suc j) = ancestor d p j"
  by simp

lemma walk_up_found:
  "canton_at d m k c \<Longrightarrow> 1 \<le> k \<Longrightarrow> depth + k \<le> max_depth \<Longrightarrow>
   walk_up d m depth = (short_name c, Some (name c))"
proof (induction k arbitrary: m depth)
  case 0
  then show ?case by simp
next
  case (Suc k)
  from Suc.prems(1) obtain p where p: "parent_of d m = Some p" and a: "ancestor d p k = Some c"
    and l: "level c = Some 1"
    and before: "list_all (\<lambda>j. not_level_1 (ancestor d m j)) [1..<Suc k]"
    by (auto simp: canton_at_def split: option.splits)
  from Suc.prems(3) have dl: "depth < max_depth" by simp
  show ?case
  proof (cases k)
    case 0
    with a have "p = c" by simp
    with p l dl show ?thesis by (simp add: walk_up_step)
  next
    case (Suc k')
    from before have b: "\<And>j. 1 \<le> j \<Longrightarrow> j < Suc k \<Longrightarrow> not_level_1 (ancestor d m j)"
      unfolding list_all_upt by blast
    have "not_level_1 (ancestor d m (Suc 0))"
      using b [of "Suc 0"] Suc by simp
    then have np: "level p \<noteq> Some 1"
      unfolding ancestor_Suc_parent [OF p] by (simp add: not_level_1_def)
    have "list_all (\<lambda>j. not_level_1 (ancestor d p j)) [1..<k]"
      unfolding list_all_upt
    proof (intro allI impI)
      fix j assume "1 \<le> j \<and> j < k"
      then have "1 \<le> Suc j" and "Suc j < Suc k"
        by simp_all
      then have "not_level_1 (ancestor d m (Suc j))"
        by (rule b)
      then show "not_level_1 (ancestor d p j)"
        unfolding ancestor_Suc_parent [OF p] .
    qed
    with a l have "canton_at d p k c" by (simp add: canton_at_def)
    moreover have "1 \<le> k" using Suc by simp
    moreover have "(depth + 1) + k \<le> max_depth" using Suc.prems(3) by simp
    ultimately have "walk_up d p (depth + 1) = (short_name c, Some (name c))"
      by (rule Suc.IH)
    with p np dl show ?thesis by (simp add: walk_up_step)
  qed
qed

lemma walk_up_none:
  "no_canton_within d m (max_depth - depth) \<Longrightarrow> walk_up d m depth = (None, None)"
proof (induction "max_depth - depth" arbitrary: m depth)
  case 0
  then show ?case by (simp add: walk_up_stop)
next
  case (Suc n)
  then have dl: "depth < max_depth" by simp
  show ?case
  proof (cases "parent_of d m")
    case None
    then show ?thesis by (simp add: walk_up_stop)
  next
    case (Some p)
    from Suc.hyps(2) have n: "max_depth - (depth + 1) = n" by simp
    from Suc.prems have b: "\<And>j. 1 \<le> j \<Longrightarrow> j < Suc (max_depth - depth) \<Longrightarrow>
        not_level_1 (ancestor d m j)"
      unfolding no_canton_within_def list_all_upt by blast
    have "not_level_1 (ancestor d m (Suc 0))"
      using b [of "Suc 0"] dl by simp
    then have np: "level p \<noteq> Some 1"
      unfolding ancestor_Suc_parent [OF Some] by (simp add: not_level_1_def)
    have "no_canton_within d p (max_depth - (depth + 1))"
      unfolding no_canton_within_def list_all_upt
    proof (intro allI impI)
      fix j assume "1 \<le> j \<and> j < Suc (max_depth - (depth + 1))"
      then have "1 \<le> Suc j" and "Suc j < Suc (max_depth - depth)"
        using dl by arith+
      then have "not_level_1 (ancestor d m (Suc j))"
        by (rule b)
      then show "not_level_1 (ancestor d p j)"
        unfolding ancestor_Suc_parent [OF Some] .
    qed
    with Suc.hyps(1) [of "depth + 1" p] n have "walk_up d p (depth + 1) = (None, None)"
      by simp
    with Some np dl show ?thesis by (simp add: walk_up_step)
  qed
qed

lemma enrich_one_level_1:
  "level m = Some 1 \<Longrightarrow> enrich_one d m = m\<lparr>canton_code := short_name m, canton_name := Some (name m)\<rparr>"
  by (simp add: enrich_one_def)

lemma enrich_one_walk:
  "level m \<noteq> Some 1 \<Longrightarrow> enrich_one d m =
     m\<lparr>canton_code := fst (walk_up d m 0), canton_name := snd (walk_up d m 0)\<rparr>"
  by (auto simp: enrich_one_def split: prod.splits simp: walk_up_stop parent_of_def truthy_def split: option.splits)


lemma by_historical_code_snoc:
  "by_historical_code (ms @ [m]) = (by_historical_code ms)(historical_code m \<mapsto> m)"
  by (simp add: by_historical_code_def)

lemma by_historical_code_resolve: "by_historical_code ms = resolve ms"
proof (induction ms rule: rev_induct)
  case Nil
  show ?case by (rule ext) (simp add: by_historical_code_def resolve_def)
next
  case (snoc m ms)
  show ?case
  proof (rule ext)
    fix h
    show "by_historical_code (ms @ [m]) h = resolve (ms @ [m]) h"
      using snoc by (simp add: by_historical_code_snoc resolve_def)
  qed
qed

lemma enrich_nth:
  "i < length ms \<Longrightarrow> enrich_with_cantons ms ! i = enrich_one (by_historical_code ms) (ms ! i)"
  by (simp add: enrich_with_cantons_def)

lemma enrich_one_found:
  assumes "level m \<noteq> Some 1" and "1 \<le> k" and "k \<le> 5" and "canton_at d m k c"
  shows "enrich_one d m = m\<lparr>canton_code := short_name c, canton_name := Some (name c)\<rparr>"
proof -
  have "0 + k \<le> max_depth" using assms(3) by (simp add: max_depth_def)
  with assms have "walk_up d m 0 = (short_name c, Some (name c))"
    using walk_up_found by blast
  with assms(1) show ?thesis by (simp add: enrich_one_walk)
qed

lemma enrich_one_none:
  assumes "level m \<noteq> Some 1" and "no_canton_within d m 5"
  shows "enrich_one d m = m\<lparr>canton_code := None, canton_name := None\<rparr>"
proof -
  have "no_canton_within d m (max_depth - 0)" using assms(2) by (simp add: max_depth_def)
  then have "walk_up d m 0 = (None, None)" by (rule walk_up_none)
  with assms(1) show ?thesis by (simp add: enrich_one_walk)
qed

text \<open>
  Claim C3. Enrichment keeps the number, order and other fields of the records. A
  level-1 record gets its own \<open>short_name\<close> and \<open>name\<close>. Any other record whose first
  level-1 ancestor stands \<open>k\<close> hops up its parent chain, with \<open>k\<close> from 1 to 5, gets that
  ancestor's \<open>short_name\<close> and \<open>name\<close> (two hops: the parent's parent). A record with no
  level-1 ancestor within 5 hops, because the chain is longer than the cap, because a
  parent reference is missing or because it does not resolve in the snapshot, is left
  with both canton fields absent. Parent references are resolved among the records of
  the snapshot itself (\<open>resolve\<close>), which is what the table built by the code does. The
  function is total: no input raises.
\<close>

theorem enrich_with_cantons_walk:
  assumes "i < length ms"
  shows "length (enrich_with_cantons ms) = length ms \<and>
    enrich_with_cantons ms ! i =
      (ms ! i)\<lparr>canton_code := canton_code (enrich_with_cantons ms ! i),
               canton_name := canton_name (enrich_with_cantons ms ! i)\<rparr> \<and>
    (level (ms ! i) = Some 1 \<longrightarrow>
       canton_code (enrich_with_cantons ms ! i) = short_name (ms ! i) \<and>
       canton_name (enrich_with_cantons ms ! i) = Some (name (ms ! i))) \<and>
    (\<forall>k c. level (ms ! i) \<noteq> Some 1 \<and> 1 \<le> k \<and> k \<le> 5 \<and>
        canton_at (resolve ms) (ms ! i) k c \<longrightarrow>
       canton_code (enrich_with_cantons ms ! i) = short_name c \<and>
       canton_name (enrich_with_cantons ms ! i) = Some (name c)) \<and>
    (level (ms ! i) \<noteq> Some 1 \<and> no_canton_within (resolve ms) (ms ! i) 5 \<longrightarrow>
       canton_code (enrich_with_cantons ms ! i) = None \<and>
       canton_name (enrich_with_cantons ms ! i) = None)"
proof -
  let ?d = "resolve ms" and ?m = "ms ! i" and ?r = "enrich_with_cantons ms ! i"
  have r: "?r = enrich_one ?d ?m"
    using assms by (simp add: enrich_nth by_historical_code_resolve)
  have len: "length (enrich_with_cantons ms) = length ms"
    by (simp add: enrich_with_cantons_def)
  have rest: "?r = ?m\<lparr>canton_code := canton_code ?r, canton_name := canton_name ?r\<rparr>"
    unfolding r by (simp add: enrich_one_def split: prod.splits)
  have own: "level ?m = Some 1 \<longrightarrow>
      canton_code ?r = short_name ?m \<and> canton_name ?r = Some (name ?m)"
    unfolding r by (simp add: enrich_one_level_1)
  have found: "\<forall>k c. level ?m \<noteq> Some 1 \<and> 1 \<le> k \<and> k \<le> 5 \<and> canton_at ?d ?m k c \<longrightarrow>
      canton_code ?r = short_name c \<and> canton_name ?r = Some (name c)"
    unfolding r by (auto simp: enrich_one_found)
  have none: "level ?m \<noteq> Some 1 \<and> no_canton_within ?d ?m 5 \<longrightarrow>
      canton_code ?r = None \<and> canton_name ?r = None"
    unfolding r by (auto simp: enrich_one_none)
  from len rest own found none show ?thesis by blast
qed

theorem enrich_with_cantons_walk_witness:
  "length (enrich_with_cantons snapshot_2hop) = 3 \<and>
   canton_code (enrich_with_cantons snapshot_2hop ! 2) = Some ''ZH'' \<and>
   canton_name (enrich_with_cantons snapshot_2hop ! 2) = Some (''Z'' @ [CHR 0xFC] @ ''rich'') \<and>
   canton_code (enrich_with_cantons snapshot_2hop ! 0) = Some ''ZH'' \<and>
   canton_name (enrich_with_cantons snapshot_2hop ! 0) = Some (''Z'' @ [CHR 0xFC] @ ''rich'') \<and>
   canton_code (enrich_with_cantons snapshot_deep ! 8) = Some ''ZH'' \<and>
   canton_code (enrich_with_cantons snapshot_deep ! 1) = Some ''ZH'' \<and>
   canton_code (enrich_with_cantons snapshot_deep ! 0) = None \<and>
   canton_name (enrich_with_cantons snapshot_deep ! 0) = None \<and>
   canton_code (enrich_with_cantons snapshot_orphan ! 1) = None \<and>
   canton_name (enrich_with_cantons snapshot_orphan ! 1) = None"
proof -
  have i2: "2 < length snapshot_2hop" and i0: "0 < length snapshot_2hop"
    and len: "length snapshot_2hop = 3"
    by (simp_all add: snapshot_2hop_def)
  have l2: "level (snapshot_2hop ! 2) \<noteq> Some 1" and l0: "level (snapshot_2hop ! 0) = Some 1"
    and s0: "short_name (snapshot_2hop ! 0) = Some ''ZH''"
    and n0: "name (snapshot_2hop ! 0) = ''Z'' @ [CHR 0xFC] @ ''rich''"
    and sz: "short_name zh_canton = Some ''ZH''"
    and nz: "name zh_canton = ''Z'' @ [CHR 0xFC] @ ''rich''"
    by (simp_all add: snapshot_2hop_def zh_municipality_def zh_canton_def)
  have c2: "canton_at (resolve snapshot_2hop) (snapshot_2hop ! 2) 2 zh_canton"
    by code_simp
  have d8: "8 < length snapshot_deep" and d1: "1 < length snapshot_deep"
    and d0: "0 < length snapshot_deep"
    by (simp_all add: snapshot_deep_def)
  have ld8: "level (snapshot_deep ! 8) \<noteq> Some 1" and ld1: "level (snapshot_deep ! 1) \<noteq> Some 1"
    and ld0: "level (snapshot_deep ! 0) \<noteq> Some 1"
    by (simp_all add: snapshot_deep_def unit_def zh_municipality_def)
  have cd8: "canton_at (resolve snapshot_deep) (snapshot_deep ! 8) 2 zh_canton"
    by code_simp
  have cd1: "canton_at (resolve snapshot_deep) (snapshot_deep ! 1) 5 zh_canton"
    by code_simp
  have nd0: "no_canton_within (resolve snapshot_deep) (snapshot_deep ! 0) 5"
    by code_simp
  have o1: "1 < length snapshot_orphan"
    by (simp add: snapshot_orphan_def)
  have lo1: "level (snapshot_orphan ! 1) \<noteq> Some 1"
    by (simp add: snapshot_orphan_def unit_def)
  have no1: "no_canton_within (resolve snapshot_orphan) (snapshot_orphan ! 1) 5"
    by code_simp
  note T2 = enrich_with_cantons_walk [OF i2]
  note T0 = enrich_with_cantons_walk [OF i0]
  note D8 = enrich_with_cantons_walk [OF d8]
  note D1 = enrich_with_cantons_walk [OF d1]
  note D0 = enrich_with_cantons_walk [OF d0]
  note O1 = enrich_with_cantons_walk [OF o1]
  have L: "length (enrich_with_cantons snapshot_2hop) = 3"
    using T2 [THEN conjunct1] len by simp
  have A: "canton_code (enrich_with_cantons snapshot_2hop ! 2) = Some ''ZH'' \<and>
      canton_name (enrich_with_cantons snapshot_2hop ! 2) = Some (''Z'' @ [CHR 0xFC] @ ''rich'')"
    using T2 [THEN conjunct2, THEN conjunct2, THEN conjunct2, THEN conjunct1, rule_format,
        of 2 zh_canton] l2 c2
    by (simp add: sz nz)
  have B: "canton_code (enrich_with_cantons snapshot_2hop ! 0) = Some ''ZH'' \<and>
      canton_name (enrich_with_cantons snapshot_2hop ! 0) = Some (''Z'' @ [CHR 0xFC] @ ''rich'')"
    using T0 [THEN conjunct2, THEN conjunct2, THEN conjunct1, rule_format] l0
    by (simp add: s0 n0)
  have C8: "canton_code (enrich_with_cantons snapshot_deep ! 8) = Some ''ZH''"
    using D8 [THEN conjunct2, THEN conjunct2, THEN conjunct2, THEN conjunct1, rule_format,
        of 2 zh_canton] ld8 cd8
    by (simp add: sz)
  have C: "canton_code (enrich_with_cantons snapshot_deep ! 1) = Some ''ZH''"
    using D1 [THEN conjunct2, THEN conjunct2, THEN conjunct2, THEN conjunct1, rule_format,
        of 5 zh_canton] ld1 cd1
    by (simp add: sz)
  have D: "canton_code (enrich_with_cantons snapshot_deep ! 0) = None \<and>
      canton_name (enrich_with_cantons snapshot_deep ! 0) = None"
    using D0 [THEN conjunct2, THEN conjunct2, THEN conjunct2, THEN conjunct2, rule_format]
      ld0 nd0
    by simp
  have E: "canton_code (enrich_with_cantons snapshot_orphan ! 1) = None \<and>
      canton_name (enrich_with_cantons snapshot_orphan ! 1) = None"
    using O1 [THEN conjunct2, THEN conjunct2, THEN conjunct2, THEN conjunct2, rule_format]
      lo1 no1
    by simp
  from L A B C8 C D E show ?thesis by (simp only: simp_thms)
qed

text \<open>
  Claim C10. Enrichment can give a record a \<open>canton_name\<close> and no \<open>canton_code\<close>: a
  level-1 record without \<open>short_name\<close> gets its own name and no code, and so does every
  record whose first level-1 ancestor within 5 hops has no \<open>short_name\<close>. Hence
  ``\<open>canton_code\<close> present if and only if \<open>canton_name\<close> present'' is no invariant of
  the enriched records.
\<close>

theorem canton_name_without_canton_code:
  assumes "i < length ms"
  shows "(level (ms ! i) = Some 1 \<and> short_name (ms ! i) = None \<longrightarrow>
       canton_code (enrich_with_cantons ms ! i) = None \<and>
       canton_name (enrich_with_cantons ms ! i) = Some (name (ms ! i))) \<and>
    (\<forall>k c. level (ms ! i) \<noteq> Some 1 \<and> 1 \<le> k \<and> k \<le> 5 \<and>
        canton_at (by_historical_code ms) (ms ! i) k c \<and> short_name c = None \<longrightarrow>
       canton_code (enrich_with_cantons ms ! i) = None \<and>
       canton_name (enrich_with_cantons ms ! i) = Some (name c)) \<and>
    (\<exists>snapshot j. j < length snapshot \<and>
       canton_code (enrich_with_cantons snapshot ! j) = None \<and>
       canton_name (enrich_with_cantons snapshot ! j) \<noteq> None)"
proof -
  let ?d = "by_historical_code ms" and ?m = "ms ! i" and ?r = "enrich_with_cantons ms ! i"
  have r: "?r = enrich_one ?d ?m" using assms by (rule enrich_nth)
  have own: "level ?m = Some 1 \<and> short_name ?m = None \<longrightarrow>
      canton_code ?r = None \<and> canton_name ?r = Some (name ?m)"
    unfolding r by (simp add: enrich_one_level_1)
  have anc: "\<forall>k c. level ?m \<noteq> Some 1 \<and> 1 \<le> k \<and> k \<le> 5 \<and> canton_at ?d ?m k c \<and>
        short_name c = None \<longrightarrow>
      canton_code ?r = None \<and> canton_name ?r = Some (name c)"
    unfolding r by (auto simp: enrich_one_found)
  have "enrich_with_cantons [unit ''9'' None 1] ! 0 =
      enrich_one (by_historical_code [unit ''9'' None 1]) (unit ''9'' None 1)"
    by (simp add: enrich_nth)
  then have "canton_code (enrich_with_cantons [unit ''9'' None 1] ! 0) = None \<and>
      canton_name (enrich_with_cantons [unit ''9'' None 1] ! 0) \<noteq> None"
    by (simp add: enrich_one_level_1 unit_def)
  then have ex: "\<exists>snapshot j. j < length snapshot \<and>
       canton_code (enrich_with_cantons snapshot ! j) = None \<and>
       canton_name (enrich_with_cantons snapshot ! j) \<noteq> None"
    by (intro exI [of _ "[unit ''9'' None 1]"] exI [of _ 0]) simp
  from own anc ex show ?thesis by blast
qed

theorem canton_name_without_canton_code_witness:
  "canton_code (enrich_with_cantons snapshot_unnamed ! 0) = None \<and>
   canton_name (enrich_with_cantons snapshot_unnamed ! 0) = Some ''unit 9'' \<and>
   canton_code (enrich_with_cantons snapshot_unnamed ! 1) = None \<and>
   canton_name (enrich_with_cantons snapshot_unnamed ! 1) = Some ''unit 9''"
proof -
  have i0: "0 < length snapshot_unnamed" and i1: "1 < length snapshot_unnamed"
    by (simp_all add: snapshot_unnamed_def)
  have h0: "level (snapshot_unnamed ! 0) = Some 1" "short_name (snapshot_unnamed ! 0) = None"
    and n0: "name (snapshot_unnamed ! 0) = ''unit 9''"
    and l1: "level (snapshot_unnamed ! 1) \<noteq> Some 1"
    by (simp_all add: snapshot_unnamed_def unit_def)
  have c1: "canton_at (by_historical_code snapshot_unnamed) (snapshot_unnamed ! 1) 1
      (snapshot_unnamed ! 0)"
    by code_simp
  have A: "canton_code (enrich_with_cantons snapshot_unnamed ! 0) = None \<and>
      canton_name (enrich_with_cantons snapshot_unnamed ! 0) = Some ''unit 9''"
    using canton_name_without_canton_code [OF i0, THEN conjunct1, rule_format] h0
    by (simp add: n0)
  have B: "canton_code (enrich_with_cantons snapshot_unnamed ! 1) = None \<and>
      canton_name (enrich_with_cantons snapshot_unnamed ! 1) = Some ''unit 9''"
    using canton_name_without_canton_code [OF i1, THEN conjunct2, THEN conjunct1, rule_format,
        of 1 "snapshot_unnamed ! 0"] h0 l1 c1
    by (simp add: n0)
  from A B show ?thesis by (simp only: simp_thms)
qed

section \<open>Properties of date parsing\<close>

text \<open>The three formats, and values that do not parse.\<close>

lemma parse_date_formats:
  "parse_date (StrInput ''12-09-1848'') = Inr (Some (Date 1848 9 12))"
  "parse_date (StrInput ''1848-09-12'') = Inr (Some (Date 1848 9 12))"
  "parse_date (StrInput ''12.09.1848'') = Inr (Some (Date 1848 9 12))"
  "parse_date (StrInput '''') = Inr None"
  "parse_date (StrInput ''   '') = Inr None"
  "parse_date (StrInput ''unknown'') = Inr None"
  "parse_date (StrInput ''31-02-2020'') = Inr None"
  "parse_date (StrInput ''2020-13-01'') = Inr None"
  "parse_date (StrInput ''1.2'') = Inr None"
  "parse_date (StrInput ''01-01-10000'') = Inr None"
  by code_simp+

text \<open>The only exception that leaves the validator is \<open>OverflowError\<close>.\<close>

lemma date_of_parts_error:
  "date_of_parts parts i j k = Inl e \<Longrightarrow> caught e \<or> e = OverflowError"
  by (auto simp: date_of_parts_def int_part_def date_new_def
      split: sum.splits if_splits option.splits)

lemma parse_date_dots_error: "parse_date_dots v = Inl e \<Longrightarrow> e = OverflowError"
  by (auto simp: parse_date_dots_def split: if_splits sum.splits dest: date_of_parts_error)

lemma parse_date_error: "parse_date v = Inl e \<Longrightarrow> e = OverflowError"
  by (auto simp: parse_date_def Let_def split: date_input.splits if_splits sum.splits
      dest: date_of_parts_error parse_date_dots_error)

text \<open>
  Claim C6, at the input \<open>01-01-99999999999\<close>: the string has the shape
  \<open>DD-MM-YYYY\<close>, its year does not fit a C \<open>int\<close>, and \<open>date(...)\<close> raises
  \<open>OverflowError\<close>, which \<open>except (ValueError, IndexError)\<close> does not catch. The
  validator raises instead of returning \<open>None\<close>, and the construction of the record
  ends with that exception.
\<close>

theorem parse_date_overflow:
  "parse_date (StrInput ''01-01-99999999999'') = Inl OverflowError \<and>
   MunicipalityV1_init ''261'' (Some ''261'') ''Zurich'' None None None
     (StrInput ''01-01-99999999999'') NoneInput (Some 3) (Some ''101'') None = Inl OverflowError"
  by code_simp

section \<open>Properties of the country lookup\<close>

text \<open>The keys of the table, in its order.\<close>

lemma keys_eq:
  "map fst COUNTRY_CODES =
     [''AD'', ''AE'', ''AF'', ''AG'', ''AI'', ''AL'', ''AM'', ''AO'', ''AQ'', ''AR'', ''AS'',
     ''AT'', ''AU'', ''AW'', ''AX'', ''AZ'', ''BA'', ''BB'', ''BD'', ''BE'', ''BF'', ''BG'',
     ''BH'', ''BI'', ''BJ'', ''BL'', ''BM'', ''BN'', ''BO'', ''BQ'', ''BR'', ''BS'', ''BT'',
     ''BV'', ''BW'', ''BY'', ''BZ'', ''CA'', ''CC'', ''CD'', ''CF'', ''CG'', ''CH'', ''CI'',
     ''CK'', ''CL'', ''CM'', ''CN'', ''CO'', ''CR'', ''CU'', ''CV'', ''CW'', ''CX'', ''CY'',
     ''CZ'', ''DE'', ''DJ'', ''DK'', ''DM'', ''DO'', ''DZ'', ''EC'', ''EE'', ''EG'', ''EH'',
     ''ER'', ''ES'', ''ET'', ''FI'', ''FJ'', ''FK'', ''FM'', ''FO'', ''FR'', ''GA'', ''GB'',
     ''GD'', ''GE'', ''GF'', ''GG'', ''GH'', ''GI'', ''GL'', ''GM'', ''GN'', ''GP'', ''GQ'',
     ''GR'', ''GS'', ''GT'', ''GU'', ''GW'', ''GY'', ''HK'', ''HM'', ''HN'', ''HR'', ''HT'',
     ''HU'', ''ID'', ''IE'', ''IL'', ''IM'', ''IN'', ''IO'', ''IQ'', ''IR'', ''IS'', ''IT'',
     ''JE'', ''JM'', ''JO'', ''JP'', ''KE'', ''KG'', ''KH'', ''KI'', ''KM'', ''KN'', ''KP'',
     ''KR'', ''KW'', ''KY'', ''KZ'', ''LA'', ''LB'', ''LC'', ''LI'', ''LK'', ''LR'', ''LS'',
     ''LT'', ''LU'', ''LV'', ''LY'', ''MA'', ''MC'', ''MD'', ''ME'', ''MF'', ''MG'', ''MH'',
     ''MK'', ''ML'', ''MM'', ''MN'', ''MO'', ''MP'', ''MQ'', ''MR'', ''MS'', ''MT'', ''MU'',
     ''MV'', ''MW'', ''MX'', ''MY'', ''MZ'', ''NA'', ''NC'', ''NE'', ''NF'', ''NG'', ''NI'',
     ''NL'', ''NO'', ''NP'', ''NR'', ''NU'', ''NZ'', ''OM'', ''PA'', ''PE'', ''PF'', ''PG'',
     ''PH'', ''PK'', ''PL'', ''PM'', ''PN'', ''PR'', ''PS'', ''PT'', ''PW'', ''PY'', ''QA'',
     ''RE'', ''RO'', ''RS'', ''RU'', ''RW'', ''SA'', ''SB'', ''SC'', ''SD'', ''SE'', ''SG'',
     ''SH'', ''SI'', ''SJ'', ''SK'', ''SL'', ''SM'', ''SN'', ''SO'', ''SR'', ''SS'', ''ST'',
     ''SV'', ''SX'', ''SY'', ''SZ'', ''TC'', ''TD'', ''TF'', ''TG'', ''TH'', ''TJ'', ''TK'',
     ''TL'', ''TM'', ''TN'', ''TO'', ''TR'', ''TT'', ''TV'', ''TW'', ''TZ'', ''UA'', ''UG'',
     ''UM'', ''US'', ''UY'', ''UZ'', ''VA'', ''VC'', ''VE'', ''VG'', ''VI'', ''VN'', ''VU'',
     ''WF'', ''WS'', ''YE'', ''YT'', ''ZA'', ''ZM'', ''ZW'']"
  by (simp only: COUNTRY_CODES_def list.map fst_conv)

lemma keys_succ: "successively (<) (map fst COUNTRY_CODES)"
  unfolding keys_eq by code_simp

lemma AZ_letters:
  "is_upper_AZ CHR ''A''"
  "is_upper_AZ CHR ''B''"
  "is_upper_AZ CHR ''C''"
  "is_upper_AZ CHR ''D''"
  "is_upper_AZ CHR ''E''"
  "is_upper_AZ CHR ''F''"
  "is_upper_AZ CHR ''G''"
  "is_upper_AZ CHR ''H''"
  "is_upper_AZ CHR ''I''"
  "is_upper_AZ CHR ''J''"
  "is_upper_AZ CHR ''K''"
  "is_upper_AZ CHR ''L''"
  "is_upper_AZ CHR ''M''"
  "is_upper_AZ CHR ''N''"
  "is_upper_AZ CHR ''O''"
  "is_upper_AZ CHR ''P''"
  "is_upper_AZ CHR ''Q''"
  "is_upper_AZ CHR ''R''"
  "is_upper_AZ CHR ''S''"
  "is_upper_AZ CHR ''T''"
  "is_upper_AZ CHR ''U''"
  "is_upper_AZ CHR ''V''"
  "is_upper_AZ CHR ''W''"
  "is_upper_AZ CHR ''X''"
  "is_upper_AZ CHR ''Y''"
  "is_upper_AZ CHR ''Z''"
  by (simp_all add: is_upper_AZ_def code_point_def)

lemma keys_AZ: "list_all (list_all is_upper_AZ) (map fst COUNTRY_CODES)"
  unfolding keys_eq by (simp only: list.pred_inject AZ_letters simp_thms)

lemma keys_length: "length (map fst COUNTRY_CODES) = 249"
  unfolding keys_eq by simp

lemma upper_AZ_string: "list_all is_upper_AZ k \<Longrightarrow> upper k = k"
  by (induction k) (simp_all add: upper_def upper_char_AZ)

lemma map_filter_table:
  assumes "successively (<) (map fst T)" and "list_all (list_all is_upper_AZ) (map fst T)"
  shows "List.map_filter
      (\<lambda>k. case map_of T (upper k) of Some d \<Rightarrow> Some (f (upper k) d) | None \<Rightarrow> None)
      (sort (map fst T)) = map (\<lambda>(k, d). f k d) T"
proof -
  let ?g = "\<lambda>k. case map_of T (upper k) of Some d \<Rightarrow> Some (f (upper k) d) | None \<Rightarrow> None"
  have "transp ((<) :: string \<Rightarrow> string \<Rightarrow> bool)" by (rule transp_on_less)
  then have sw: "sorted_wrt (<) (map fst T)"
    using assms(1) by (simp add: successively_conv_sorted_wrt)
  then have s: "sorted (map fst T)" and d: "distinct (map fst T)"
    by (simp_all add: strict_sorted_iff)
  have g: "?g (fst p) = Some (f (fst p) (snd p))" if "p \<in> set T" for p
  proof -
    from that assms(2) have "list_all is_upper_AZ (fst p)"
      by (auto simp: list_all_iff)
    then have u: "upper (fst p) = fst p" by (rule upper_AZ_string)
    from that d have "map_of T (fst p) = Some (snd p)" by simp
    with u show ?thesis by simp
  qed
  have "List.map_filter ?g (sort (map fst T)) = List.map_filter ?g (map fst T)"
    using s by (simp add: sorted_sort_id)
  also have "\<dots> = map (the \<circ> ?g) (filter (\<lambda>k. ?g k \<noteq> None) (map fst T))"
    by (simp only: List.map_filter_def)
  also have "filter (\<lambda>k. ?g k \<noteq> None) (map fst T) = map fst T"
    using g by (intro filter_True) auto
  also have "map (the \<circ> ?g) (map fst T) = map (\<lambda>(k, d). f k d) T"
    using g by (auto simp: case_prod_beta)
  finally show ?thesis .
qed

lemma get_all_countries_table:
  "get_all_countries =
     map (\<lambda>(k, d). \<lparr> iso2 = k, bfs_code = data_bfs_code d, iso3 = data_iso3 d,
                      name_de = names_de d, name_fr = names_fr d,
                      name_it = names_it d, name_en = names_en d \<rparr>) COUNTRY_CODES"
  unfolding get_all_countries_def get_country_def [abs_def]
  by (rule map_filter_table [OF keys_succ keys_AZ])

lemma iso2_get_all_countries: "map iso2 get_all_countries = map fst COUNTRY_CODES"
  by (simp add: get_all_countries_table case_prod_beta comp_def)

text \<open>
  Claim C7. \<open>get_all_countries()\<close> returns one record per entry of the bundled table,
  built from that entry and in the order of the table: 249 records, more than 200. Their
  \<open>iso2\<close> codes are strictly ascending in the order of Python strings (code point by
  code point), and \<open>CH\<close>, \<open>DE\<close>, \<open>FR\<close> and \<open>US\<close> are among them.
\<close>

theorem get_all_countries_sorted:
  "get_all_countries =
     map (\<lambda>(k, d). \<lparr> iso2 = k, bfs_code = data_bfs_code d, iso3 = data_iso3 d,
                      name_de = names_de d, name_fr = names_fr d,
                      name_it = names_it d, name_en = names_en d \<rparr>) COUNTRY_CODES \<and>
   length get_all_countries = length COUNTRY_CODES \<and>
   length get_all_countries = 249 \<and>
   sorted_wrt (<) (map iso2 get_all_countries) \<and>
   ''CH'' \<in> set (map iso2 get_all_countries) \<and>
   ''DE'' \<in> set (map iso2 get_all_countries) \<and>
   ''FR'' \<in> set (map iso2 get_all_countries) \<and>
   ''US'' \<in> set (map iso2 get_all_countries)"
proof -
  have len: "length get_all_countries = length COUNTRY_CODES"
    by (simp add: get_all_countries_table)
  have n: "length get_all_countries = 249"
    using keys_length by (simp add: get_all_countries_table)
  have "transp ((<) :: string \<Rightarrow> string \<Rightarrow> bool)" by (rule transp_on_less)
  then have s: "sorted_wrt (<) (map iso2 get_all_countries)"
    using keys_succ by (simp add: iso2_get_all_countries successively_conv_sorted_wrt)
  have m: "''CH'' \<in> set (map iso2 get_all_countries)"
    "''DE'' \<in> set (map iso2 get_all_countries)"
    "''FR'' \<in> set (map iso2 get_all_countries)"
    "''US'' \<in> set (map iso2 get_all_countries)"
    unfolding iso2_get_all_countries keys_eq by simp_all
  from get_all_countries_table len n s m show ?thesis by (intro conjI)
qed

text \<open>
  Claim C4. \<open>get_country('CH')\<close> returns the record with \<open>bfs_code\<close> 8100, \<open>iso3\<close> CHE and
  the names Schweiz, Suisse, Svizzera and Switzerland.
\<close>

theorem get_country_CH:
  "get_country ''CH'' =
     Some \<lparr> iso2 = ''CH'', bfs_code = ''8100'', iso3 = ''CHE'', name_de = ''Schweiz'',
            name_fr = ''Suisse'', name_it = ''Svizzera'', name_en = ''Switzerland'' \<rparr>"
  by code_simp

lemma get_name_unknown:
  "lang \<notin> set [''de'', ''fr'', ''it'', ''en''] \<Longrightarrow> get_name c lang = name_de c"
  by (simp add: get_name_def)

lemma get_name_de: "get_name c ''de'' = name_de c"
  by (simp add: get_name_def)

lemma switzerland_listed:
  "\<lparr> iso2 = ''CH'', bfs_code = ''8100'', iso3 = ''CHE'', name_de = ''Schweiz'',
     name_fr = ''Suisse'', name_it = ''Svizzera'', name_en = ''Switzerland'' \<rparr>
   \<in> set get_all_countries"
proof -
  have "map_of COUNTRY_CODES ''CH'' =
      Some \<lparr> data_bfs_code = ''8100'', data_iso3 = ''CHE'', names_de = ''Schweiz'',
             names_fr = ''Suisse'', names_it = ''Svizzera'', names_en = ''Switzerland'' \<rparr>"
    by code_simp
  then have "(''CH'', \<lparr> data_bfs_code = ''8100'', data_iso3 = ''CHE'', names_de = ''Schweiz'',
             names_fr = ''Suisse'', names_it = ''Svizzera'', names_en = ''Switzerland'' \<rparr>)
      \<in> set COUNTRY_CODES"
    by (rule map_of_SomeD)
  then show ?thesis
    unfolding get_all_countries_table by force
qed

text \<open>
  Claim C1, as stated, at a concrete input: the language code \<open>xx\<close> is none of the four,
  and the search for \<open>Schweiz\<close> in it is not empty: it finds Switzerland.
\<close>

theorem search_countries_unknown_language_counterexample:
  "\<lparr> iso2 = ''CH'', bfs_code = ''8100'', iso3 = ''CHE'', name_de = ''Schweiz'',
     name_fr = ''Suisse'', name_it = ''Svizzera'', name_en = ''Switzerland'' \<rparr>
     \<in> set (search_countries ''Schweiz'' ''xx'') \<and>
   search_countries ''Schweiz'' ''xx'' \<noteq> []"
proof -
  have p: "str_contains (lower ''Schweiz'')
      (lower (get_name \<lparr> iso2 = ''CH'', bfs_code = ''8100'', iso3 = ''CHE'',
         name_de = ''Schweiz'', name_fr = ''Suisse'', name_it = ''Svizzera'',
         name_en = ''Switzerland'' \<rparr> ''xx''))"
    by code_simp
  have "\<lparr> iso2 = ''CH'', bfs_code = ''8100'', iso3 = ''CHE'', name_de = ''Schweiz'',
     name_fr = ''Suisse'', name_it = ''Svizzera'', name_en = ''Switzerland'' \<rparr>
     \<in> set (search_countries ''Schweiz'' ''xx'')"
    using switzerland_listed p by (simp add: search_countries_def)
  then show ?thesis by auto
qed

text \<open>
  Claim C1, amended. For every query and every language code that is none of \<open>de\<close>,
  \<open>fr\<close>, \<open>it\<close>, \<open>en\<close>, \<open>search_countries\<close> returns what it returns for \<open>de\<close>: the
  countries whose German name contains the query, case-insensitively. The search falls
  back to the German names as \<open>get_name\<close> does.
\<close>

theorem search_countries_unknown_language:
  assumes "lang \<notin> set [''de'', ''fr'', ''it'', ''en'']"
  shows "search_countries query lang = search_countries query ''de'' \<and>
    search_countries query lang =
      filter (\<lambda>country. str_contains (lower query) (lower (name_de country))) get_all_countries"
  using assms by (simp add: search_countries_def get_name_unknown get_name_de del: set_simps)

theorem search_countries_unknown_language_witness:
  "''xx'' \<notin> set [''de'', ''fr'', ''it'', ''en''] \<and>
   search_countries ''Schweiz'' ''xx'' = search_countries ''Schweiz'' ''de''"
proof -
  have h: "''xx'' \<notin> set [''de'', ''fr'', ''it'', ''en'']" by simp
  from search_countries_unknown_language [OF h, of "''Schweiz''"] h show ?thesis by blast
qed

end
